theory Spec2Isabelle
  imports Complex_Main "HOL-Library.AList"
begin

section \<open>Attendance cells\<close>

text \<open>
  The value stored under one date of a student's \<open>attendance\<close> dictionary is probed by its
  shape everywhere in \<^verbatim>\<open>db_manager.py\<close> and \<^verbatim>\<open>mongodb_manager.py\<close>:
  \<^item> \<open>isinstance(v, str)\<close>: the single mark \<open>'P'\<close>, \<open>'A'\<close> or \<open>'L'\<close> (any string can be stored);
  \<^item> \<open>isinstance(v, dict) and 'sessions' in v\<close>: \<open>{sessions: [...], updated_at: ...}\<close>;
  \<^item> \<open>isinstance(v, dict) and 'status' in v\<close>: \<open>{status, count}\<close>, where \<open>status\<close> may be
    \<open>null\<close> and \<open>count\<close> may be missing (\<open>.get('count', 1)\<close>);
  \<^item> anything else that is not \<open>null\<close>: a dictionary with neither key, a number, a list.
  A session entry is \<open>{id, name, status}\<close> with \<open>status\<close> possibly \<open>null\<close>.
\<close>

record session =
  s_id :: string
  s_name :: string
  s_status :: "string option"

datatype cell =
    Simple string
  | Counted "string option" "int option"
  | Sessions "session list" string
  | Other

type_synonym attendance = "(string \<times> cell) list"

subsection \<open>Session identifiers\<close>

text \<open>\<open>f"session_{i}"\<close> and \<open>f"QR Session {i}"\<close>: the decimal digits of \<open>i\<close>.\<close>

definition digit_char :: "nat \<Rightarrow> char" where
  "digit_char d = ''0123456789'' ! d"

fun str_nat :: "nat \<Rightarrow> string" where
  "str_nat n = (if n < 10 then [digit_char n] else str_nat (n div 10) @ [digit_char (n mod 10)])"

definition session_id :: "nat \<Rightarrow> string" where
  "session_id i = ''session_'' @ str_nat i"

definition qr_session_name :: "nat \<Rightarrow> string" where
  "qr_session_name i = ''QR Session '' @ str_nat i"

definition new_session :: "nat \<Rightarrow> string \<Rightarrow> session" where
  "new_session i st = \<lparr>s_id = session_id i, s_name = qr_session_name i, s_status = Some st\<rparr>"

subsection \<open>The in-place list operations of the merge\<close>

text \<open>\<open>list.insert(k, x)\<close> for \<open>k \<ge> 0\<close>: past the end it appends.\<close>

definition py_insert :: "nat \<Rightarrow> 'a \<Rightarrow> 'a list \<Rightarrow> 'a list" where
  "py_insert k x xs = take k xs @ x # drop k xs"

text \<open>
  \<^verbatim>\<open>for i in range(1, n + 1):
      session_id = f"session_{i}"
      if session_id not in existing_ids:
          sessions.insert(i - 1, {"id": session_id, "name": f"QR Session {i}",
                                  "status": VERDICT if i == n else "A"})\<close>
  \<open>existing_ids\<close> is computed once, before the loop.
\<close>

definition fill_missing :: "string set \<Rightarrow> nat \<Rightarrow> string \<Rightarrow> session list \<Rightarrow> session list" where
  "fill_missing existing_ids n verdict sessions =
     fold (\<lambda>i ss. if session_id i \<in> existing_ids then ss
                    else py_insert (i - 1) (new_session i (if i = n then verdict else ''A'')) ss)
          [1..<Suc n] sessions"

text \<open>
  \<^verbatim>\<open>for session in sessions:
      if session.get('id') == f"session_{n}":
          session['status'] = 'P'
          break\<close>
\<close>

fun mark_present :: "string \<Rightarrow> session list \<Rightarrow> session list" where
  "mark_present target [] = []"
| "mark_present target (s # ss) =
     (if s_id s = target then s\<lparr>s_status := Some ''P''\<rparr> # ss else s # mark_present target ss)"

subsection \<open>Marking a scan (\<^verbatim>\<open>scan_qr_code\<close>)\<close>

text \<open>
  The new value of \<open>student_record['attendance'][date]\<close> after the update block of
  \<^verbatim>\<open>db_manager.scan_qr_code\<close> (lines 152-251); \<open>cur\<close> is
  \<open>student_record['attendance'].get(date)\<close>, \<open>now\<close> the clock reading. A shape that no
  branch matches is left as it is.
\<close>

definition scan_qr_code_cell :: "string \<Rightarrow> nat \<Rightarrow> cell option \<Rightarrow> cell option" where
  "scan_qr_code_cell now n cur =
     (if n = 1 then
        (case cur of
           None \<Rightarrow> Some (Simple ''P'')
         | Some (Simple s) \<Rightarrow> Some (Simple ''P'')
         | Some (Sessions sessions u) \<Rightarrow>
             Some (Sessions
               (case sessions of
                  [] \<Rightarrow> [\<lparr>s_id = ''session_1'', s_name = ''QR Session 1'', s_status = Some ''P''\<rparr>]
                | s # rest \<Rightarrow> s\<lparr>s_status := Some ''P''\<rparr> # rest) now)
         | Some c \<Rightarrow> Some c)
      else
        (case cur of
           None \<Rightarrow>
             Some (Sessions (map (\<lambda>i. new_session i ''A'') [1..<n] @ [new_session n ''P'']) now)
         | Some (Simple s) \<Rightarrow>
             Some (Sessions (map (\<lambda>i. new_session i (if i = 1 then s else ''A'')) [1..<n]
                             @ [new_session n ''P'']) now)
         | Some (Sessions sessions u) \<Rightarrow>
             Some (Sessions
               (mark_present (session_id n)
                 (fill_missing (set (filter (\<lambda>x. x \<noteq> []) (map s_id sessions))) n ''P'' sessions))
               now)
         | Some c \<Rightarrow> Some c))"

text \<open>The same block of \<^verbatim>\<open>mongodb_manager.scan_qr_code\<close> (lines 1139-1180).\<close>

definition mongo_scan_qr_code_cell :: "string \<Rightarrow> nat \<Rightarrow> cell option \<Rightarrow> cell option" where
  "mongo_scan_qr_code_cell now n cur =
     (if n = 1 then Some (Simple ''P'')
      else
        (case cur of
           None \<Rightarrow>
             Some (Sessions (map (\<lambda>i. new_session i (if i < n then ''A'' else ''P'')) [1..<Suc n]) now)
         | Some (Simple s) \<Rightarrow>
             Some (Sessions (map (\<lambda>i. new_session i
                               (if i = 1 then s else if i < n then ''A'' else ''P'')) [1..<Suc n]) now)
         | Some (Sessions sessions u) \<Rightarrow>
             Some (Sessions
               (mark_present (session_id n)
                 (fill_missing (set (map s_id sessions)) n ''P'' sessions))
               now)
         | Some c \<Rightarrow> Some c))"

subsection \<open>Marking an absence (\<^verbatim>\<open>stop_qr_session\<close>)\<close>

text \<open>
  The update block of \<^verbatim>\<open>stop_qr_session\<close> for one unscanned student; the text is the same
  in \<^verbatim>\<open>db_manager.py\<close> (lines 317-360) and \<^verbatim>\<open>mongodb_manager.py\<close> (lines 1021-1053).
\<close>

definition stop_qr_session_cell :: "string \<Rightarrow> nat \<Rightarrow> cell option \<Rightarrow> cell option" where
  "stop_qr_session_cell now n cur =
     (if n = 1 then Some (Simple ''A'')
      else
        (case cur of
           None \<Rightarrow> Some (Sessions (map (\<lambda>i. new_session i ''A'') [1..<Suc n]) now)
         | Some (Simple s) \<Rightarrow>
             Some (Sessions (map (\<lambda>i. new_session i (if i = 1 then s else ''A'')) [1..<Suc n]) now)
         | Some (Sessions sessions u) \<Rightarrow>
             Some (Sessions (fill_missing (set (map s_id sessions)) n ''A'' sessions) now)
         | Some c \<Rightarrow> Some c))"

section \<open>Valid sessions, as the specification words them\<close>

text \<open>
  The decoding of a cell into its list of session entries and the "valid" entries of the data
  model, written from the specification (sections 3 and 4.1) to compare the code with: a string
  among \<open>P\<close>, \<open>A\<close>, \<open>L\<close> is one entry, \<open>{status, count}\<close> is \<open>count\<close> entries sharing the
  status, a \<open>sessions\<close> list is itself, and any other value has no entry.
\<close>

definition spec_decode :: "cell option \<Rightarrow> session list" where
  "spec_decode raw =
     (case raw of
        None \<Rightarrow> []
      | Some (Simple s) \<Rightarrow>
          (if s \<in> {''P'', ''A'', ''L''}
           then [\<lparr>s_id = ''session_1'', s_name = ''Session 1'', s_status = Some s\<rparr>] else [])
      | Some (Counted st c) \<Rightarrow>
          map (\<lambda>i. \<lparr>s_id = session_id i, s_name = ''Session '' @ str_nat i, s_status = st\<rparr>)
              [1..<Suc (nat (case c of None \<Rightarrow> 1 | Some k \<Rightarrow> k))]
      | Some (Sessions sessions u) \<Rightarrow> sessions
      | Some Other \<Rightarrow> [])"

text \<open>"Valid sessions = entries whose status is not null."\<close>

definition spec_valid_count :: "cell option \<Rightarrow> nat" where
  "spec_valid_count raw = length (filter (\<lambda>s. s_status s \<noteq> None) (spec_decode raw))"

text \<open>The entries of a whole attendance mapping that carry the mark \<open>m\<close>.\<close>

definition spec_marks :: "string \<Rightarrow> attendance \<Rightarrow> int" where
  "spec_marks m att =
     (\<Sum>(d, c) \<leftarrow> att. int (length (filter (\<lambda>s. s_status s = Some m) (spec_decode (Some c)))))"

text \<open>The data model's \<open>count \<ge> 1\<close>, weakened to what the statistics need.\<close>

fun counted_nonneg :: "cell \<Rightarrow> bool" where
  "counted_nonneg (Counted st (Some k)) = (0 \<le> k)"
| "counted_nonneg c = True"

section \<open>Arithmetic\<close>

text \<open>
  Percentages are Python floats. A finite float is the rational it denotes; what an operation
  adds is the rounding of its exact result to a float, and \<open>round(x, ndigits)\<close>. Both are
  parameters of the model, so that every statement below holds whatever the rounding is:
  \<open>rnd\<close> rounds an exact result to the nearest float, \<open>round_nd k\<close> is \<open>round(\<cdot>, k)\<close>.
  Comparisons of floats are exact.
\<close>

record arith =
  rnd :: "rat \<Rightarrow> rat"
  round_nd :: "nat \<Rightarrow> rat \<Rightarrow> rat"

text \<open>\<open>(present + late) / total * 100\<close>: a true division of integers, then a product.\<close>

definition percent :: "arith \<Rightarrow> int \<Rightarrow> int \<Rightarrow> rat" where
  "percent ar attended n = rnd ar (rnd ar (of_int attended / of_int n) * 100)"

text \<open>
  The arithmetic without rounding error, with \<open>round\<close> to the nearest multiple of \<open>10\<^sup>-\<^sup>k\<close>
  (ties to even), used to evaluate the code at inputs whose intermediate values are floats.
\<close>

definition round_half_even :: "rat \<Rightarrow> int" where
  "round_half_even x =
     (let f = \<lfloor>x\<rfloor>; d = x - of_int f
      in if d < 1 / 2 then f else if 1 / 2 < d then f + 1 else if even f then f else f + 1)"

definition ideal_arith :: arith where
  "ideal_arith = \<lparr>rnd = (\<lambda>x. x), round_nd = (\<lambda>k x. of_int (round_half_even (x * 10 ^ k)) / 10 ^ k)\<rparr>"

section \<open>Students, classes and statistics\<close>

record 'i student =
  st_id :: 'i
  st_rollNo :: string
  st_name :: string
  st_email :: string
  st_attendance :: attendance

text \<open>
  \<open>thresholds\<close> is a free dictionary of cut-offs (the request model types it
  \<open>Optional[Dict[str, Any]]\<close>); \<open>thresholds.get(key, default)\<close>:
\<close>

type_synonym thresholds = "(string \<times> rat) list"

definition get_threshold :: "thresholds \<Rightarrow> string \<Rightarrow> rat \<Rightarrow> rat" where
  "get_threshold th key dflt = (case map_of th key of None \<Rightarrow> dflt | Some v \<Rightarrow> v)"

definition default_thresholds :: thresholds where
  "default_thresholds = [(''excellent'', 95), (''good'', 90), (''moderate'', 85), (''atRisk'', 85)]"

text \<open>
  The counting block that both statistics functions repeat for every mark:
  \<^verbatim>\<open>if status in ["P", "A", "L"]:
      total += k
      if status == "P": present += k
      elif status == "A": absent += k
      elif status == "L": late += k\<close>
  on the counters \<open>(n_present, n_absent, n_late, n_total)\<close>.
\<close>

definition count_status :: "string \<Rightarrow> int \<Rightarrow> int \<times> int \<times> int \<times> int \<Rightarrow> int \<times> int \<times> int \<times> int" where
  "count_status status k =
     (\<lambda>(n_present, n_absent, n_late, n_total).
        if status \<in> set [''P'', ''A'', ''L''] then
          (if status = ''P'' then (n_present + k, n_absent, n_late, n_total + k)
           else if status = ''A'' then (n_present, n_absent + k, n_late, n_total + k)
           else if status = ''L'' then (n_present, n_absent, n_late + k, n_total + k)
           else (n_present, n_absent, n_late, n_total + k))
        else (n_present, n_absent, n_late, n_total))"

text \<open>
  One iteration of \<open>for date_key, value in attendance.items()\<close>: the \<open>sessions\<close> list is walked
  entry by entry, \<open>{status, count}\<close> adds \<open>count\<close> (default 1) at once, a string adds one.
  (\<^verbatim>\<open>calculate_class_statistics\<close> enters the first branch only for a non-empty list and
  \<^verbatim>\<open>mongodb_manager\<close> also tests \<open>isinstance(..., list)\<close> and converts \<open>int(count)\<close>; on
  these cells the three texts compute the same.)
\<close>

definition count_cell :: "cell \<Rightarrow> int \<times> int \<times> int \<times> int \<Rightarrow> int \<times> int \<times> int \<times> int" where
  "count_cell value acc =
     (case value of
        Sessions sessions u \<Rightarrow>
          fold (\<lambda>session acc. case s_status session of None \<Rightarrow> acc
                                | Some status \<Rightarrow> count_status status 1 acc) sessions acc
      | Counted st c \<Rightarrow>
          (case st of None \<Rightarrow> acc
           | Some status \<Rightarrow> count_status status (case c of None \<Rightarrow> 1 | Some k \<Rightarrow> k) acc)
      | Simple v \<Rightarrow> count_status v 1 acc
      | Other \<Rightarrow> acc)"

definition count_attendance :: "attendance \<Rightarrow> int \<times> int \<times> int \<times> int" where
  "count_attendance att = fold (\<lambda>(date_key, value) acc. count_cell value acc) att (0, 0, 0, 0)"

record student_statistics =
  total_classes :: int
  present :: int
  absent :: int
  late :: int
  percentage :: rat
  status :: string

text \<open>
  \<^verbatim>\<open>calculate_student_statistics\<close> (\<^verbatim>\<open>db_manager.py\<close> lines 1892-1986,
  \<^verbatim>\<open>mongodb_manager.py\<close> lines 729-814: the same computation).
\<close>

definition calculate_student_statistics ::
  "arith \<Rightarrow> 'i student \<Rightarrow> thresholds option \<Rightarrow> student_statistics" where
  "calculate_student_statistics ar student_record thresholds =
     (let thresholds = (case thresholds of None \<Rightarrow> default_thresholds
                        | Some th \<Rightarrow> if th = [] then default_thresholds else th);
          attendance = st_attendance student_record
      in if attendance = [] then
           \<lparr>total_classes = 0, present = 0, absent = 0, late = 0, percentage = 0,
            status = ''no data''\<rparr>
         else
           (case count_attendance attendance of (n_present, n_absent, n_late, n_total) \<Rightarrow>
              let percentage = (if 0 < n_total then percent ar (n_present + n_late) n_total else 0);
                  status =
                    (if get_threshold thresholds ''excellent'' 95 \<le> percentage then ''excellent''
                     else if get_threshold thresholds ''good'' 90 \<le> percentage then ''good''
                     else if get_threshold thresholds ''moderate'' 85 \<le> percentage then ''moderate''
                     else ''at risk'')
              in \<lparr>total_classes = n_total, present = n_present, absent = n_absent, late = n_late,
                  percentage = round_nd ar 3 percentage, status = status\<rparr>))"

text \<open>The same statistics, worded as the specification does (section 4.4).\<close>

definition spec_bucket :: "thresholds \<Rightarrow> rat \<Rightarrow> string" where
  "spec_bucket th pct =
     (if get_threshold th ''excellent'' 95 \<le> pct then ''excellent''
      else if get_threshold th ''good'' 90 \<le> pct then ''good''
      else if get_threshold th ''moderate'' 85 \<le> pct then ''moderate''
      else ''at risk'')"

definition spec_student_statistics ::
  "arith \<Rightarrow> attendance \<Rightarrow> thresholds \<Rightarrow> student_statistics" where
  "spec_student_statistics ar att th =
     (if att = [] then
        \<lparr>total_classes = 0, present = 0, absent = 0, late = 0, percentage = 0, status = ''no data''\<rparr>
      else
        (let p = spec_marks ''P'' att; a = spec_marks ''A'' att; l = spec_marks ''L'' att;
             t = p + a + l;
             pct = (if 0 < t then percent ar (p + l) t else 0)
         in \<lparr>total_classes = t, present = p, absent = a, late = l,
             percentage = round_nd ar 3 pct, status = spec_bucket th pct\<rparr>))"

definition effective_thresholds :: "thresholds option \<Rightarrow> thresholds" where
  "effective_thresholds thresholds =
     (case thresholds of None \<Rightarrow> default_thresholds
      | Some th \<Rightarrow> if th = [] then default_thresholds else th)"

subsection \<open>Class statistics\<close>

record class_statistics =
  totalStudents :: nat
  avgAttendance :: rat
  atRiskCount :: nat
  excellentCount :: nat
  lastCalculated :: "string option"

record 'i class_data =
  c_teacher_id :: "string option"
  c_enrollment_mode :: "string option"
  c_students :: "'i student list"
  c_thresholds :: "thresholds option"
  c_statistics :: "class_statistics option"

text \<open>
  One iteration of \<open>for student in students\<close> of \<^verbatim>\<open>db_manager.calculate_class_statistics\<close>
  on \<open>(at_risk, excellent, total_attendance, students_with_attendance)\<close>.
\<close>

definition class_statistics_step ::
  "arith \<Rightarrow> thresholds \<Rightarrow> 'i student \<Rightarrow> nat \<times> nat \<times> rat \<times> nat \<Rightarrow> nat \<times> nat \<times> rat \<times> nat" where
  "class_statistics_step ar thresholds student =
     (\<lambda>(at_risk, excellent, total_attendance, students_with_attendance).
        if st_attendance student = [] then
          (at_risk, excellent, total_attendance, students_with_attendance)
        else
          (case count_attendance (st_attendance student) of (n_present, n_absent, n_late, n_total) \<Rightarrow>
             if 0 < n_total then
               (let percentage = percent ar (n_present + n_late) n_total;
                    total_attendance = rnd ar (total_attendance + percentage);
                    students_with_attendance = students_with_attendance + 1
                in if get_threshold thresholds ''excellent'' 95 \<le> percentage
                   then (at_risk, excellent + 1, total_attendance, students_with_attendance)
                   else if percentage < get_threshold thresholds ''atRisk'' 85
                   then (at_risk + 1, excellent, total_attendance, students_with_attendance)
                   else (at_risk, excellent, total_attendance, students_with_attendance))
             else (at_risk, excellent, total_attendance, students_with_attendance)))"

text \<open>\<^verbatim>\<open>db_manager.calculate_class_statistics\<close> (lines 807-921).\<close>

definition calculate_class_statistics ::
  "arith \<Rightarrow> string \<Rightarrow> 'i class_data \<Rightarrow> class_statistics" where
  "calculate_class_statistics ar now class_data =
     (let students = c_students class_data
      in if students = [] then
           \<lparr>totalStudents = 0, avgAttendance = 0, atRiskCount = 0, excellentCount = 0,
            lastCalculated = None\<rparr>
         else
           (let thresholds = (case c_thresholds class_data of None \<Rightarrow> default_thresholds
                              | Some th \<Rightarrow> th)
            in case fold (class_statistics_step ar thresholds) students (0, 0, 0, 0) of
                 (at_risk, excellent, total_attendance, students_with_attendance) \<Rightarrow>
                   let avg_attendance =
                         (if 0 < students_with_attendance
                          then rnd ar (total_attendance / of_nat students_with_attendance) else 0)
                   in \<lparr>totalStudents = length students,
                       avgAttendance = round_nd ar 3 avg_attendance,
                       atRiskCount = at_risk, excellentCount = excellent,
                       lastCalculated = Some now\<rparr>))"

text \<open>
  \<^verbatim>\<open>mongodb_manager.calculate_class_statistics\<close> (lines 552-585): per student the number of
  dates whose value is \<open>"P"\<close> or has some session with status \<open>"P"\<close>, over the number of dates.
\<close>

record mongo_class_statistics =
  m_totalStudents :: nat
  m_averageAttendance :: rat
  m_totalSessions :: nat

definition mongo_present_day :: "cell \<Rightarrow> bool" where
  "mongo_present_day v =
     (case v of
        Simple s \<Rightarrow> s = ''P''
      | Sessions sessions u \<Rightarrow> list_ex (\<lambda>s. s_status s = Some ''P'') sessions
      | Counted st c \<Rightarrow> False
      | Other \<Rightarrow> False)"

definition mongo_class_statistics_step ::
  "arith \<Rightarrow> 'i student \<Rightarrow> rat \<times> nat \<times> nat \<Rightarrow> rat \<times> nat \<times> nat" where
  "mongo_class_statistics_step ar student =
     (\<lambda>(total_attendance_sum, students_with_attendance, total_sessions).
        let attendance = st_attendance student
        in if attendance = [] then (total_attendance_sum, students_with_attendance, total_sessions)
           else
             (let present_count = length (filter (\<lambda>(d, v). mongo_present_day v) attendance);
                  total_days = length attendance
              in if 0 < total_days then
                   (rnd ar (total_attendance_sum
                            + rnd ar (rnd ar (of_nat present_count / of_nat total_days) * 100)),
                    students_with_attendance + 1,
                    max total_sessions total_days)
                 else (total_attendance_sum, students_with_attendance, total_sessions)))"

definition mongo_calculate_class_statistics ::
  "arith \<Rightarrow> 'i class_data \<Rightarrow> mongo_class_statistics" where
  "mongo_calculate_class_statistics ar class_data =
     (let students = c_students class_data; total_students = length students
      in if total_students = 0 then
           \<lparr>m_totalStudents = 0, m_averageAttendance = 0, m_totalSessions = 0\<rparr>
         else
           (case fold (mongo_class_statistics_step ar) students (0, 0, 0) of
              (total_attendance_sum, students_with_attendance, total_sessions) \<Rightarrow>
                let average_attendance =
                      (if 0 < students_with_attendance
                       then rnd ar (total_attendance_sum / of_nat students_with_attendance) else 0)
                in \<lparr>m_totalStudents = total_students,
                    m_averageAttendance = round_nd ar 2 average_attendance,
                    m_totalSessions = total_sessions\<rparr>))"

section \<open>The file backend (\<^verbatim>\<open>db_manager.py\<close>)\<close>

text \<open>
  A raised exception is a value: \<open>ValueError\<close> with its message, and the \<open>AttributeError\<close>
  of \<open>None.get(...)\<close> where the code reads a file that is not there without a check.
\<close>

datatype error = ValueError string | AttributeError string

record 'i enrollment =
  e_student_id :: string
  e_student_record_id :: 'i
  e_class_id :: string
  e_name :: string
  e_roll_no :: string
  e_email :: string
  e_enrolled_at :: string
  e_status :: string
  e_unenrolled_at :: "string option"
  e_re_enrolled_at :: "string option"

record 'i qr_session =
  q_class_id :: string
  q_teacher_id :: string
  q_date :: string
  q_session_number :: nat
  q_started_at :: string
  q_rotation_interval :: int
  q_current_code :: string
  q_code_generated_at :: string
  q_last_rotation :: "string option"
  q_scanned_students :: "'i list"
  q_status :: string
  q_stopped_at :: "string option"

text \<open>
  The JSON files the functions below read and write: one class file per class id (in the
  directory of the teacher its \<open>teacher_id\<close> names), one enrollment file per class, one QR
  session file per class and date, and which teachers have a user file. The students' account
  files and the teachers' overview, which \<^verbatim>\<open>enroll_student\<close> and \<^verbatim>\<open>unenroll_student\<close>
  also rewrite, are never read back by these functions and are left out.
\<close>

record 'i db =
  users :: "string set"
  classes :: "string \<rightharpoonup> 'i class_data"
  enrollment_files :: "string \<rightharpoonup> 'i enrollment list"
  qr_session_files :: "string \<times> string \<rightharpoonup> 'i qr_session"

text \<open>\<open>self.read_json(self.get_class_file(teacher_id, class_id))\<close>\<close>

definition read_class_file :: "'i db \<Rightarrow> string \<Rightarrow> string \<Rightarrow> 'i class_data option" where
  "read_class_file db teacher_id class_id =
     (case classes db class_id of
        None \<Rightarrow> None
      | Some class_data \<Rightarrow>
          if c_teacher_id class_data = Some teacher_id then Some class_data else None)"

text \<open>\<open>self.read_json(enrollment_file) or []\<close>\<close>

definition read_enrollments :: "'i db \<Rightarrow> string \<Rightarrow> 'i enrollment list" where
  "read_enrollments db class_id =
     (case enrollment_files db class_id of None \<Rightarrow> [] | Some es \<Rightarrow> es)"

subsection \<open>Session numbering and \<^verbatim>\<open>start_qr_session\<close>\<close>

text \<open>
  One iteration of \<open>for student in students\<close> of \<^verbatim>\<open>_count_valid_sessions_for_date\<close>
  (lines 2114-2138) on \<open>max_sessions\<close>; \<open>if day_data:\<close> skips a missing key and an empty
  string.
\<close>

definition count_valid_step :: "string \<Rightarrow> 'i student \<Rightarrow> int \<Rightarrow> int" where
  "count_valid_step date student max_sessions =
     (case map_of (st_attendance student) date of
        None \<Rightarrow> max_sessions
      | Some (Sessions sessions u) \<Rightarrow>
          max max_sessions (int (length (filter (\<lambda>s. s_status s \<noteq> None) sessions)))
      | Some (Counted st c) \<Rightarrow>
          (if st \<noteq> None then max max_sessions (case c of None \<Rightarrow> 1 | Some k \<Rightarrow> k)
           else max_sessions)
      | Some (Simple s) \<Rightarrow> (if s \<noteq> [] then max max_sessions 1 else max_sessions)
      | Some Other \<Rightarrow> max_sessions)"

definition count_valid_sessions_for_date :: "'i class_data \<Rightarrow> string \<Rightarrow> int" where
  "count_valid_sessions_for_date class_data date =
     (let students = c_students class_data
      in if students = [] then 0 else fold (count_valid_step date) students 0)"

text \<open>
  \<^verbatim>\<open>db_manager.start_qr_session\<close> (lines 2043-2095). \<open>code\<close> is the drawn 8-character code,
  \<open>now\<close> the clock reading. \<open>valid_session_count\<close> is never negative, so the session number
  is kept as a natural number.
\<close>

definition start_qr_session ::
  "'i db \<Rightarrow> string \<Rightarrow> string \<Rightarrow> string \<Rightarrow> int \<Rightarrow> string \<Rightarrow> string \<Rightarrow> error + ('i qr_session \<times> 'i db)" where
  "start_qr_session db class_id teacher_id date rotation_interval code now =
     (case classes db class_id of
        None \<Rightarrow> Inl (ValueError ''Class not found or unauthorized'')
      | Some class_data \<Rightarrow>
          if c_teacher_id class_data \<noteq> Some teacher_id
          then Inl (ValueError ''Class not found or unauthorized'')
          else if (case c_enrollment_mode class_data of None \<Rightarrow> ''manual_entry'' | Some m \<Rightarrow> m)
                  \<noteq> ''enrollment_via_id''
          then Inl (ValueError
            ''QR attendance is only available for classes with student enrollment via Class ID'')
          else
            (let valid_session_count = count_valid_sessions_for_date class_data date
             in if (case qr_session_files db (class_id, date) of
                      None \<Rightarrow> False | Some existing_session \<Rightarrow> q_status existing_session = ''active'')
                then Inl (ValueError
                  ''There is already an active QR session for this date. Please stop it first.'')
                else
                  (let qr_session_data =
                         \<lparr>q_class_id = class_id, q_teacher_id = teacher_id, q_date = date,
                          q_session_number = nat (valid_session_count + 1),
                          q_started_at = now, q_rotation_interval = rotation_interval,
                          q_current_code = code, q_code_generated_at = now,
                          q_last_rotation = None, q_scanned_students = [],
                          q_status = ''active'', q_stopped_at = None\<rparr>
                   in Inr (qr_session_data,
                           db\<lparr>qr_session_files :=
                                (qr_session_files db)((class_id, date) \<mapsto> qr_session_data)\<rparr>))))"

subsection \<open>\<^verbatim>\<open>stop_qr_session\<close>\<close>

text \<open>\<open>student['attendance'][date] = ...\<close> for one unscanned student.\<close>

definition mark_absent :: "string \<Rightarrow> string \<Rightarrow> nat \<Rightarrow> 'i student \<Rightarrow> 'i student" where
  "mark_absent now date n student =
     (case stop_qr_session_cell now n (map_of (st_attendance student) date) of
        None \<Rightarrow> student
      | Some v \<Rightarrow> student\<lparr>st_attendance := AList.update date v (st_attendance student)\<rparr>)"

record stop_result =
  r_scanned_count :: nat
  r_absent_count :: nat
  r_date :: string
  r_session_number :: nat

text \<open>
  \<^verbatim>\<open>db_manager.stop_qr_session\<close> (lines 276-381). The class file is written back with its
  \<open>students\<close> replaced and every other key, the cached \<open>statistics\<close> among them, as read.
\<close>

definition stop_qr_session ::
  "'i db \<Rightarrow> string \<Rightarrow> string \<Rightarrow> string \<Rightarrow> string \<Rightarrow> error + (stop_result \<times> 'i db)" where
  "stop_qr_session db class_id teacher_id date now =
     (case qr_session_files db (class_id, date) of
        None \<Rightarrow> Inl (ValueError ''No active session'')
      | Some session_data \<Rightarrow>
          if q_status session_data \<noteq> ''active'' then Inl (ValueError ''No active session'')
          else if q_teacher_id session_data \<noteq> teacher_id then Inl (ValueError ''Unauthorized'')
          else
            (let qr_session_number = q_session_number session_data;
                 scanned_ids = set (q_scanned_students session_data);
                 active_student_ids =
                   set (map e_student_record_id
                          (filter (\<lambda>e. e_status e = ''active'') (read_enrollments db class_id)))
             in case read_class_file db teacher_id class_id of
                  None \<Rightarrow> Inl (AttributeError ''NoneType object has no attribute get'')
                | Some class_data \<Rightarrow>
                    (let unscanned = (\<lambda>student. st_id student \<in> active_student_ids
                                                 \<and> st_id student \<notin> scanned_ids);
                         students = map (\<lambda>student. if unscanned student
                                                     then mark_absent now date qr_session_number student
                                                     else student) (c_students class_data);
                         marked_absent = length (filter unscanned (c_students class_data))
                     in Inr (\<lparr>r_scanned_count = card scanned_ids, r_absent_count = marked_absent,
                               r_date = date, r_session_number = qr_session_number\<rparr>,
                             db\<lparr>classes := (classes db)(class_id \<mapsto> class_data\<lparr>c_students := students\<rparr>),
                                qr_session_files := (qr_session_files db)((class_id, date) \<mapsto>
                                  session_data\<lparr>q_status := ''stopped'', q_stopped_at := Some now\<rparr>)\<rparr>))))"

subsection \<open>Enrolling and unenrolling\<close>

text \<open>
  \<^verbatim>\<open>update_user_overview\<close> (lines 558-577) calls \<^verbatim>\<open>get_all_classes\<close> (lines 650-698), which
  recomputes the \<open>statistics\<close> of every class file of the teacher, over the actively enrolled
  students in enrollment mode, and saves them back. Nothing else of a class file changes.
\<close>

definition refreshed_statistics :: "arith \<Rightarrow> string \<Rightarrow> 'i db \<Rightarrow> string \<Rightarrow> 'i class_data \<Rightarrow> class_statistics" where
  "refreshed_statistics ar now db class_id class_data =
     (if (case c_enrollment_mode class_data of None \<Rightarrow> ''manual_entry'' | Some m \<Rightarrow> m)
         = ''enrollment_via_id''
      then
        (let active_record_ids =
               set (map e_student_record_id
                      (filter (\<lambda>e. e_status e = ''active'') (read_enrollments db class_id)))
         in calculate_class_statistics ar now
              (class_data\<lparr>c_students :=
                 filter (\<lambda>s. st_id s \<in> active_record_ids) (c_students class_data)\<rparr>))
      else calculate_class_statistics ar now class_data)"

definition update_user_overview :: "arith \<Rightarrow> string \<Rightarrow> 'i db \<Rightarrow> string \<Rightarrow> 'i db" where
  "update_user_overview ar now db user_id =
     (if user_id \<in> users db then
        db\<lparr>classes := (\<lambda>class_id.
              case classes db class_id of
                None \<Rightarrow> None
              | Some class_data \<Rightarrow>
                  if c_teacher_id class_data = Some user_id
                  then Some (class_data\<lparr>c_statistics :=
                               Some (refreshed_statistics ar now db class_id class_data)\<rparr>)
                  else Some class_data)\<rparr>
      else db)"

text \<open>The first element that satisfies \<open>P\<close>, changed in place.\<close>

fun update_first :: "('a \<Rightarrow> bool) \<Rightarrow> ('a \<Rightarrow> 'a) \<Rightarrow> 'a list \<Rightarrow> 'a list" where
  "update_first P f [] = []"
| "update_first P f (x # xs) = (if P x then f x # xs else x # update_first P f xs)"

record student_info =
  i_name :: string
  i_rollNo :: string
  i_email :: string

record 'i enroll_result =
  er_class_id :: string
  er_student_id :: string
  er_student_record_id :: 'i
  er_status :: string

text \<open>
  \<^verbatim>\<open>db_manager.enroll_student\<close> (lines 1555-1718). \<open>new_record_id\<close> is what
  \<^verbatim>\<open>_generate_student_record_id\<close> draws from the clock.
\<close>

definition enroll_student ::
  "arith \<Rightarrow> 'i db \<Rightarrow> string \<Rightarrow> string \<Rightarrow> student_info \<Rightarrow> 'i \<Rightarrow> string \<Rightarrow> error + ('i enroll_result \<times> 'i db)" where
  "enroll_student ar db student_id class_id info new_record_id now =
     (case classes db class_id of
        None \<Rightarrow> Inl (ValueError ''Class not found'')
      | Some class_data \<Rightarrow>
          (case c_teacher_id class_data of
             None \<Rightarrow> Inl (ValueError ''Invalid class data'')
           | Some teacher_id \<Rightarrow>
               if teacher_id = [] then Inl (ValueError ''Invalid class data'')
               else
                 (let enrollments = read_enrollments db class_id
                  in if list_ex (\<lambda>e. e_student_id e = student_id \<and> e_status e = ''active'') enrollments
                     then Inl (ValueError ''You are already enrolled in this class'')
                     else
                       (case find (\<lambda>e. e_student_id e = student_id) enrollments of
                          Some previous_enrollment \<Rightarrow>
                            (let student_record_id = e_student_record_id previous_enrollment;
                                 enrollments = update_first (\<lambda>e. e_student_id e = student_id)
                                   (\<lambda>e. e\<lparr>e_status := ''active'', e_re_enrolled_at := Some now,
                                           e_roll_no := i_rollNo info\<rparr>) enrollments;
                                 students = c_students class_data;
                                 students =
                                   (if list_ex (\<lambda>s. st_id s = student_record_id) students
                                    then update_first (\<lambda>s. st_id s = student_record_id)
                                           (\<lambda>s. s\<lparr>st_rollNo := i_rollNo info, st_name := i_name info\<rparr>)
                                           students
                                    else students @
                                           [\<lparr>st_id = student_record_id, st_rollNo = i_rollNo info,
                                             st_name = i_name info, st_email = i_email info,
                                             st_attendance = []\<rparr>]);
                                 db = db\<lparr>enrollment_files := (enrollment_files db)(class_id \<mapsto> enrollments)\<rparr>;
                                 db = db\<lparr>classes := (classes db)(class_id \<mapsto> class_data\<lparr>c_students := students\<rparr>)\<rparr>
                             in Inr (\<lparr>er_class_id = class_id, er_student_id = student_id,
                                       er_student_record_id = student_record_id,
                                       er_status = ''re-enrolled''\<rparr>,
                                     update_user_overview ar now db teacher_id))
                        | None \<Rightarrow>
                            (let student_record_id = new_record_id;
                                 enrollments = enrollments @
                                   [\<lparr>e_student_id = student_id, e_student_record_id = student_record_id,
                                     e_class_id = class_id, e_name = i_name info,
                                     e_roll_no = i_rollNo info, e_email = i_email info,
                                     e_enrolled_at = now, e_status = ''active'',
                                     e_unenrolled_at = None, e_re_enrolled_at = None\<rparr>];
                                 students = c_students class_data @
                                   [\<lparr>st_id = student_record_id, st_rollNo = i_rollNo info,
                                     st_name = i_name info, st_email = i_email info,
                                     st_attendance = []\<rparr>];
                                 db = db\<lparr>enrollment_files := (enrollment_files db)(class_id \<mapsto> enrollments)\<rparr>;
                                 db = db\<lparr>classes := (classes db)(class_id \<mapsto> class_data\<lparr>c_students := students\<rparr>)\<rparr>
                             in Inr (\<lparr>er_class_id = class_id, er_student_id = student_id,
                                       er_student_record_id = student_record_id,
                                       er_status = ''enrolled''\<rparr>,
                                     update_user_overview ar now db teacher_id))))))"

text \<open>
  \<^verbatim>\<open>db_manager.unenroll_student\<close> (lines 1720-1794): \<open>False\<close> and nothing written when the
  student has no active enrollment.
\<close>

definition unenroll_student :: "arith \<Rightarrow> 'i db \<Rightarrow> string \<Rightarrow> string \<Rightarrow> string \<Rightarrow> bool \<times> 'i db" where
  "unenroll_student ar db student_id class_id now =
     (let all_enrollments = read_enrollments db class_id;
          is_active = (\<lambda>e. e_student_id e = student_id \<and> e_status e = ''active'')
      in if \<not> list_ex is_active all_enrollments then (False, db)
         else
           (let all_enrollments = update_first is_active
                  (\<lambda>e. e\<lparr>e_status := ''inactive'', e_unenrolled_at := Some now\<rparr>) all_enrollments;
                db = db\<lparr>enrollment_files := (enrollment_files db)(class_id \<mapsto> all_enrollments)\<rparr>
            in case classes db class_id of
                 None \<Rightarrow> (True, db)
               | Some class_data \<Rightarrow>
                   (case c_teacher_id class_data of
                      None \<Rightarrow> (True, db)
                    | Some teacher_id \<Rightarrow>
                        if teacher_id = [] then (True, db)
                        else (True, update_user_overview ar now db teacher_id))))"

section \<open>The document backend (\<^verbatim>\<open>mongodb_manager.py\<close>)\<close>

text \<open>
  The \<open>classes\<close> and \<open>qr_sessions\<close> collections; class ids are compared in their string form
  (\<^verbatim>\<open>_class_id_variants\<close>).
\<close>

record 'i mongo =
  m_classes :: "string \<rightharpoonup> 'i class_data"
  m_qr_sessions :: "'i qr_session list"

text \<open>
  \<^verbatim>\<open>mongodb_manager.start_qr_session\<close> (lines 869-921). It reads the \<open>qr_sessions\<close>
  collection only: the session number is one more than the highest number among the sessions
  recorded for the class and date.
\<close>

definition mongo_start_qr_session ::
  "'i mongo \<Rightarrow> string \<Rightarrow> string \<Rightarrow> string \<Rightarrow> int \<Rightarrow> string \<Rightarrow> string \<Rightarrow> error + ('i qr_session \<times> 'i mongo)" where
  "mongo_start_qr_session db class_id teacher_id date rotation_interval code now =
     (if list_ex (\<lambda>q. q_class_id q = class_id \<and> q_date q = date \<and> q_status q = ''active'')
           (m_qr_sessions db)
      then Inl (ValueError ''An active QR session already exists for this date'')
      else
        (let previous_sessions =
               take 1 (rev (sort_key q_session_number
                 (filter (\<lambda>q. q_class_id q = class_id \<and> q_date q = date) (m_qr_sessions db))));
             session_number = (case previous_sessions of [] \<Rightarrow> 1 | q # qs \<Rightarrow> q_session_number q + 1);
             session_data =
               \<lparr>q_class_id = class_id, q_teacher_id = teacher_id, q_date = date,
                q_session_number = session_number, q_started_at = now,
                q_rotation_interval = rotation_interval, q_current_code = code,
                q_code_generated_at = now, q_last_rotation = Some now, q_scanned_students = [],
                q_status = ''active'', q_stopped_at = None\<rparr>
         in Inr (session_data, db\<lparr>m_qr_sessions := m_qr_sessions db @ [session_data]\<rparr>)))"

section \<open>Marks of a cell, and the inputs of the worked examples\<close>

text \<open>The entries of one decoded cell that carry the mark \<open>m\<close>, and a cell without any mark.\<close>

definition cell_marks :: "string \<Rightarrow> cell \<Rightarrow> int" where
  "cell_marks m c = int (length (filter (\<lambda>s. s_status s = Some m) (spec_decode (Some c))))"

definition spec_no_valid_entry :: "cell \<Rightarrow> bool" where
  "spec_no_valid_entry c =
     (filter (\<lambda>s. s_status s \<in> {Some ''P'', Some ''A'', Some ''L''}) (spec_decode (Some c)) = [])"

definition ex_null_slot_student :: "nat student" where
  "ex_null_slot_student =
     \<lparr>st_id = 1, st_rollNo = ''7'', st_name = ''X'', st_email = ''x@example.org'',
      st_attendance = [(''2024-01-10'',
         Sessions [\<lparr>s_id = ''session_1'', s_name = ''Session 1'', s_status = None\<rparr>]
                  ''2024-01-10T09:00:00'')]\<rparr>"

definition ex_mixed_student :: "nat student" where
  "ex_mixed_student =
     \<lparr>st_id = 2, st_rollNo = ''8'', st_name = ''Y'', st_email = ''y@example.org'',
      st_attendance =
        [(''2024-01-08'', Simple ''P''),
         (''2024-01-09'', Counted (Some ''A'') (Some 2)),
         (''2024-01-10'', Sessions [new_session 1 ''P'',
             \<lparr>s_id = ''session_2'', s_name = ''Session 2'', s_status = None\<rparr>,
             new_session 3 ''L''] ''2024-01-10T09:00:00'')]\<rparr>"

text \<open>Views of the stored state: the roster with each record's attendance, and the enrollment
  entries of one student and of the others.\<close>

definition roster :: "'i db \<Rightarrow> string \<Rightarrow> ('i \<times> attendance) list option" where
  "roster db class_id =
     map_option (\<lambda>c. map (\<lambda>s. (st_id s, st_attendance s)) (c_students c)) (classes db class_id)"

definition enrollments_of :: "'i db \<Rightarrow> string \<Rightarrow> string \<Rightarrow> 'i enrollment list" where
  "enrollments_of db class_id student_id =
     filter (\<lambda>e. e_student_id e = student_id) (read_enrollments db class_id)"

definition other_enrollments :: "'i db \<Rightarrow> string \<Rightarrow> string \<Rightarrow> 'i enrollment list" where
  "other_enrollments db class_id student_id =
     filter (\<lambda>e. e_student_id e \<noteq> student_id) (read_enrollments db class_id)"

definition ex_late_class :: "nat class_data" where
  "ex_late_class =
     \<lparr>c_teacher_id = Some ''t1'', c_enrollment_mode = Some ''enrollment_via_id'',
      c_students = [\<lparr>st_id = 1, st_rollNo = ''1'', st_name = ''X'', st_email = ''x@example.org'',
                     st_attendance = [(''2024-01-10'', Simple ''L'')]\<rparr>],
      c_thresholds = None, c_statistics = None\<rparr>"

definition ex_two_sessions_class :: "nat class_data" where
  "ex_two_sessions_class =
     \<lparr>c_teacher_id = Some ''t1'', c_enrollment_mode = Some ''enrollment_via_id'',
      c_students = [\<lparr>st_id = 1, st_rollNo = ''1'', st_name = ''X'', st_email = ''x@example.org'',
                     st_attendance = [(''2024-01-10'',
                        Sessions [new_session 1 ''P'', new_session 2 ''P''] ''2024-01-10T09:00:00'')]\<rparr>],
      c_thresholds = None, c_statistics = None\<rparr>"

definition ex_manual_class :: "nat class_data" where
  "ex_manual_class =
     \<lparr>c_teacher_id = Some ''t1'', c_enrollment_mode = Some ''manual_entry'',
      c_students = [], c_thresholds = None, c_statistics = None\<rparr>"

definition ex_db :: "nat class_data \<Rightarrow> nat db" where
  "ex_db class_data =
     \<lparr>users = {''t1''}, classes = [''c1'' \<mapsto> class_data], enrollment_files = Map.empty,
      qr_session_files = Map.empty\<rparr>"

definition ex_mongo :: "nat class_data \<Rightarrow> nat mongo" where
  "ex_mongo class_data = \<lparr>m_classes = [''c1'' \<mapsto> class_data], m_qr_sessions = []\<rparr>"

definition ex_enrollment :: "string \<Rightarrow> nat \<Rightarrow> nat enrollment" where
  "ex_enrollment student_id record_id =
     \<lparr>e_student_id = student_id, e_student_record_id = record_id, e_class_id = ''c1'',
      e_name = ''N'', e_roll_no = ''1'', e_email = ''n@example.org'',
      e_enrolled_at = ''2024-01-01T08:00:00'', e_status = ''active'',
      e_unenrolled_at = None, e_re_enrolled_at = None\<rparr>"

definition ex_stop_class :: "nat class_data" where
  "ex_stop_class =
     \<lparr>c_teacher_id = Some ''t1'', c_enrollment_mode = Some ''enrollment_via_id'',
      c_students =
        [\<lparr>st_id = 1, st_rollNo = ''1'', st_name = ''X'', st_email = ''x@example.org'',
          st_attendance = [(''2024-01-10'', Simple ''P'')]\<rparr>,
         \<lparr>st_id = 2, st_rollNo = ''2'', st_name = ''Y'', st_email = ''y@example.org'',
          st_attendance = []\<rparr>],
      c_thresholds = None,
      c_statistics = Some \<lparr>totalStudents = 2, avgAttendance = 0, atRiskCount = 0,
                            excellentCount = 0, lastCalculated = Some ''2024-01-09T08:00:00''\<rparr>\<rparr>"

definition ex_stop_db :: "nat db" where
  "ex_stop_db =
     \<lparr>users = {''t1''},
      classes = [''c1'' \<mapsto> ex_stop_class],
      enrollment_files = [''c1'' \<mapsto> [ex_enrollment ''sX'' 1, ex_enrollment ''sY'' 2]],
      qr_session_files = [(''c1'', ''2024-01-10'') \<mapsto>
        \<lparr>q_class_id = ''c1'', q_teacher_id = ''t1'', q_date = ''2024-01-10'',
         q_session_number = 1, q_started_at = ''2024-01-10T09:00:00'', q_rotation_interval = 5,
         q_current_code = ''AB12CD34'', q_code_generated_at = ''2024-01-10T09:00:00'',
         q_last_rotation = None, q_scanned_students = [1], q_status = ''active'',
         q_stopped_at = None\<rparr>]\<rparr>"

text \<open>
  The data model's cells (a string is one of \<open>P\<close>, \<open>A\<close>, \<open>L\<close>; a count is not negative), and the
  highest valid count of a date over the roster, 0 for an empty roster or a date without data.
\<close>

fun stored_as_specified :: "cell \<Rightarrow> bool" where
  "stored_as_specified (Simple s) = (s \<in> {''P'', ''A'', ''L''})"
| "stored_as_specified (Counted st (Some k)) = (0 \<le> k)"
| "stored_as_specified c = True"

definition day_cells_as_specified :: "'i class_data \<Rightarrow> string \<Rightarrow> bool" where
  "day_cells_as_specified class_data date =
     list_all (\<lambda>s. case map_of (st_attendance s) date of None \<Rightarrow> True
                    | Some c \<Rightarrow> stored_as_specified c) (c_students class_data)"

definition spec_max_valid_count :: "'i class_data \<Rightarrow> string \<Rightarrow> nat" where
  "spec_max_valid_count class_data date =
     Max (insert 0 ((\<lambda>s. spec_valid_count (map_of (st_attendance s) date)) ` set (c_students class_data)))"

section \<open>Decimal numerals are injective\<close>

lemma str_nat_not_Nil: "str_nat n \<noteq> []"
  by (subst str_nat.simps) simp

declare str_nat.simps [simp del]

lemma digit_char_inj: "a < 10 \<Longrightarrow> b < 10 \<Longrightarrow> digit_char a = digit_char b \<Longrightarrow> a = b"
proof -
  assume a: "a < 10" and b: "b < 10" and e: "digit_char a = digit_char b"
  have d: "distinct ''0123456789''" by simp
  have l: "length ''0123456789'' = 10" by simp
  from e have "''0123456789'' ! a = ''0123456789'' ! b" by (simp only: digit_char_def)
  with d a b l show "a = b" by (metis nth_eq_iff_index_eq)
qed

lemma str_nat_inj: "str_nat m = str_nat n \<Longrightarrow> m = n"
proof (induction m arbitrary: n rule: str_nat.induct)
  case (1 m)
  show ?case
  proof (cases "m < 10")
    case True
    note m = this
    show ?thesis
    proof (cases "n < 10")
      case True
      with m "1.prems" show ?thesis
        by (simp add: str_nat.simps[of m] str_nat.simps[of n] digit_char_inj)
    next
      case False
      with m "1.prems" show ?thesis
        using str_nat_not_Nil[of "n div 10"]
        by (simp add: str_nat.simps[of m] str_nat.simps[of n])
    qed
  next
    case False
    note m = this
    show ?thesis
    proof (cases "n < 10")
      case True
      with m "1.prems" show ?thesis
        using str_nat_not_Nil[of "m div 10"]
        by (simp add: str_nat.simps[of m] str_nat.simps[of n])
    next
      case False
      with m "1.prems" have e: "str_nat (m div 10) = str_nat (n div 10)"
        and d: "digit_char (m mod 10) = digit_char (n mod 10)"
        by (simp_all add: str_nat.simps[of m] str_nat.simps[of n])
      from "1.IH"[OF m e] have q: "m div 10 = n div 10" .
      from d have r: "m mod 10 = n mod 10" by (intro digit_char_inj) simp_all
      from q r show ?thesis by (metis div_mult_mod_eq)
    qed
  qed
qed

lemma session_id_inj: "session_id i = session_id j \<longleftrightarrow> i = j"
  by (auto simp: session_id_def dest: str_nat_inj)

section \<open>Filling and marking\<close>

lemma set_py_insert: "set (py_insert k x xs) = insert x (set xs)"
proof -
  have "set (take k xs) \<union> set (drop k xs) = set xs"
    by (metis append_take_drop_id set_append)
  then show ?thesis by (auto simp: py_insert_def)
qed

lemma length_py_insert: "length (py_insert k x xs) = Suc (length xs)"
  by (simp add: py_insert_def)

lemma map_s_id_mark_present: "map s_id (mark_present t xs) = map s_id xs"
  by (induction xs) auto

lemma ids_mark_present: "s_id ` set (mark_present t xs) = s_id ` set xs"
  using map_s_id_mark_present[of t xs] by (metis set_map)

lemma mark_present_idem: "mark_present t (mark_present t xs) = mark_present t xs"
  by (induction xs) auto

lemma mark_present_append_absent:
  "t \<notin> s_id ` set xs \<Longrightarrow> mark_present t (xs @ ys) = xs @ mark_present t ys"
  by (induction xs) auto

lemma fill_fold_noop:
  "(\<And>i. i \<in> set js \<Longrightarrow> session_id i \<in> E) \<Longrightarrow>
   fold (\<lambda>i ss. if session_id i \<in> E then ss else py_insert (i - 1) (new_session i (g i)) ss) js xs = xs"
  by (induction js arbitrary: xs) auto

lemma fill_fold_keeps:
  "set xs \<subseteq> set (fold (\<lambda>i ss. if session_id i \<in> E then ss else py_insert (i - 1) (new_session i (g i)) ss) js xs)"
proof (induction js arbitrary: xs)
  case Nil
  show ?case by simp
next
  case (Cons j js)
  show ?case
  proof (cases "session_id j \<in> E")
    case True
    with Cons.IH[of xs] show ?thesis by simp
  next
    case False
    have "set xs \<subseteq> set (py_insert (j - 1) (new_session j (g j)) xs)"
      by (auto simp: set_py_insert)
    with Cons.IH[of "py_insert (j - 1) (new_session j (g j)) xs"] False show ?thesis
      by auto
  qed
qed

lemma fill_fold_adds:
  "j \<in> set js \<Longrightarrow> session_id j \<notin> E \<Longrightarrow>
   new_session j (g j) \<in> set (fold (\<lambda>i ss. if session_id i \<in> E then ss else py_insert (i - 1) (new_session i (g i)) ss) js xs)"
proof (induction js arbitrary: xs)
  case Nil
  then show ?case by simp
next
  case (Cons k js)
  show ?case
  proof (cases "j = k")
    case True
    have "new_session j (g j) \<in> set (py_insert (j - 1) (new_session j (g j)) xs)"
      by (simp add: set_py_insert)
    with fill_fold_keeps[of "py_insert (j - 1) (new_session j (g j)) xs" E g js] True Cons.prems
    show ?thesis by auto
  next
    case False
    with Cons.prems have "j \<in> set js" by simp
    from Cons.IH[OF this Cons.prems(2)] show ?thesis by simp
  qed
qed

lemma s_id_new_session [simp]: "s_id (new_session i st) = session_id i"
  by (simp add: new_session_def)

lemma session_id_not_Nil [simp]: "session_id i \<noteq> []"
  by (simp add: session_id_def)

lemma fill_missing_keeps: "set xs \<subseteq> set (fill_missing E n v xs)"
  unfolding fill_missing_def by (rule fill_fold_keeps)

lemma fill_missing_has_ids:
  assumes "E \<subseteq> s_id ` set xs" and "1 \<le> i" and "i \<le> n"
  shows "session_id i \<in> s_id ` set (fill_missing E n v xs)"
proof (cases "session_id i \<in> E")
  case False
  from assms(2,3) have "i \<in> set [1..<Suc n]" by auto
  from fill_fold_adds[OF this False, of "\<lambda>i. if i = n then v else ''A''" xs]
  have "new_session i (if i = n then v else ''A'') \<in> set (fill_missing E n v xs)"
    by (simp add: fill_missing_def)
  then have "s_id (new_session i (if i = n then v else ''A'')) \<in> s_id ` set (fill_missing E n v xs)"
    by (rule imageI)
  then show ?thesis by simp
next
  case True
  with assms(1) have "session_id i \<in> s_id ` set xs" by auto
  with fill_missing_keeps[of xs E n v] show ?thesis by auto
qed

lemma fill_missing_noop:
  assumes "\<And>i. 1 \<le> i \<Longrightarrow> i \<le> n \<Longrightarrow> session_id i \<in> E"
  shows "fill_missing E n v xs = xs"
  unfolding fill_missing_def
  by (rule fill_fold_noop) (use assms in auto)

lemma nonempty_ids_filter:
  "set (filter (\<lambda>x. x \<noteq> []) (map s_id xs)) = {x \<in> s_id ` set xs. x \<noteq> []}"
  by auto

lemma fill_missing_twice:
  assumes E: "E \<subseteq> s_id ` set xs"
      and E': "\<And>x. x \<noteq> [] \<Longrightarrow> x \<in> s_id ` set (f (fill_missing E n v xs)) \<Longrightarrow> x \<in> E'"
      and f: "\<And>ys. map s_id (f ys) = map s_id ys"
  shows "fill_missing E' n w (f (fill_missing E n v xs)) = f (fill_missing E n v xs)"
proof (rule fill_missing_noop)
  fix i assume i: "1 \<le> i" "i \<le> n"
  from fill_missing_has_ids[OF E i] have "session_id i \<in> s_id ` set (fill_missing E n v xs)" .
  also have "s_id ` set (fill_missing E n v xs) = set (map s_id (fill_missing E n v xs))" by simp
  also have "\<dots> = set (map s_id (f (fill_missing E n v xs)))" by (simp only: f)
  finally have "session_id i \<in> s_id ` set (f (fill_missing E n v xs))" by simp
  with E' show "session_id i \<in> E'" by simp
qed

lemma upt_ids_absent: "n \<notin> set js \<Longrightarrow> session_id n \<notin> s_id ` set (map (\<lambda>i. new_session i (g i)) js)"
  by (auto simp: session_id_inj)

lemma scan_fixed:
  assumes "n \<noteq> 1"
      and "fill_missing (set (filter (\<lambda>x. x \<noteq> []) (map s_id xs))) n ''P'' xs = xs"
      and "mark_present (session_id n) xs = xs"
  shows "scan_qr_code_cell t2 n (Some (Sessions xs t1)) = Some (Sessions xs t2)"
  using assms by (simp add: scan_qr_code_cell_def)

lemma built_fixed_db:
  fixes g :: "nat \<Rightarrow> string" and n :: nat
  defines "xs \<equiv> map (\<lambda>i. new_session i (g i)) [1..<n] @ [new_session n ''P'']"
  shows "fill_missing (set (filter (\<lambda>x. x \<noteq> []) (map s_id xs))) n ''P'' xs = xs"
    and "mark_present (session_id n) xs = xs"
proof -
  show "fill_missing (set (filter (\<lambda>x. x \<noteq> []) (map s_id xs))) n ''P'' xs = xs"
    by (rule fill_missing_noop) (auto simp: xs_def le_less)
  show "mark_present (session_id n) xs = xs"
    unfolding xs_def
    by (subst mark_present_append_absent) (auto simp: session_id_inj new_session_def)
qed

lemma scan_idem:
  "scan_qr_code_cell t2 n (scan_qr_code_cell t1 n c) = scan_qr_code_cell t2 n c"
proof (cases "n = 1")
  case True
  then show ?thesis
    by (auto simp: scan_qr_code_cell_def split: option.splits cell.splits list.splits)
next
  case False
  note n = this
  show ?thesis
  proof (cases c)
    case None
    let ?xs = "map (\<lambda>i. new_session i ''A'') [1..<n] @ [new_session n ''P'']"
    from None n have 1: "\<And>t. scan_qr_code_cell t n c = Some (Sessions ?xs t)"
      by (simp add: scan_qr_code_cell_def)
    show ?thesis
      unfolding 1 by (rule scan_fixed[OF n built_fixed_db])
  next
    case (Some cv)
    show ?thesis
    proof (cases cv)
      case (Simple s)
      let ?xs = "map (\<lambda>i. new_session i (if i = 1 then s else ''A'')) [1..<n] @ [new_session n ''P'']"
      from Some Simple n have 1: "\<And>t. scan_qr_code_cell t n c = Some (Sessions ?xs t)"
        by (simp add: scan_qr_code_cell_def)
      show ?thesis
        unfolding 1 by (rule scan_fixed[OF n built_fixed_db])
    next
      case (Counted a b)
      with Some n show ?thesis by (simp add: scan_qr_code_cell_def)
    next
      case Other
      with Some n show ?thesis by (simp add: scan_qr_code_cell_def)
    next
      case (Sessions ss u)
      let ?E = "set (filter (\<lambda>x. x \<noteq> []) (map s_id ss))"
      let ?r = "mark_present (session_id n) (fill_missing ?E n ''P'' ss)"
      from Some Sessions n have 1: "\<And>t. scan_qr_code_cell t n c = Some (Sessions ?r t)"
        by (simp add: scan_qr_code_cell_def)
      have 2: "fill_missing (set (filter (\<lambda>x. x \<noteq> []) (map s_id ?r))) n ''P'' ?r = ?r"
        by (rule fill_missing_twice) (auto simp: map_s_id_mark_present ids_mark_present)
      show ?thesis
        unfolding 1 by (rule scan_fixed[OF n 2 mark_present_idem])
    qed
  qed
qed

lemma mongo_scan_fixed:
  assumes "n \<noteq> 1"
      and "fill_missing (set (map s_id xs)) n ''P'' xs = xs"
      and "mark_present (session_id n) xs = xs"
  shows "mongo_scan_qr_code_cell t2 n (Some (Sessions xs t1)) = Some (Sessions xs t2)"
  using assms by (simp add: mongo_scan_qr_code_cell_def)

lemma stop_fixed:
  assumes "n \<noteq> 1"
      and "fill_missing (set (map s_id xs)) n ''A'' xs = xs"
  shows "stop_qr_session_cell t2 n (Some (Sessions xs t1)) = Some (Sessions xs t2)"
  using assms by (simp add: stop_qr_session_cell_def)

lemma built_ids:
  fixes g :: "nat \<Rightarrow> string" and n :: nat
  defines "xs \<equiv> map (\<lambda>i. new_session i (g i)) [1..<Suc n]"
  shows "fill_missing (set (map s_id xs)) n v xs = xs"
proof (rule fill_missing_noop)
  fix i assume "1 \<le> i" "i \<le> n"
  then have "i \<in> set [1..<Suc n]" by auto
  then have "new_session i (g i) \<in> set xs"
    unfolding xs_def set_map by (rule imageI)
  then have "s_id (new_session i (g i)) \<in> s_id ` set xs"
    by (rule imageI)
  then show "session_id i \<in> set (map s_id xs)" by simp
qed

lemma built_marked:
  fixes g :: "nat \<Rightarrow> string" and n :: nat
  defines "xs \<equiv> map (\<lambda>i. new_session i (g i)) [1..<Suc n]"
  assumes "g n = ''P''"
  shows "mark_present (session_id n) xs = xs"
proof (cases "1 \<le> n")
  case False
  then show ?thesis by (simp add: xs_def)
next
  case True
  then have xs: "xs = map (\<lambda>i. new_session i (g i)) [1..<n] @ [new_session n ''P'']"
    using assms by (simp add: xs_def)
  show ?thesis unfolding xs
    by (subst mark_present_append_absent) (auto simp: session_id_inj new_session_def)
qed

lemma mongo_scan_idem:
  "mongo_scan_qr_code_cell t2 n (mongo_scan_qr_code_cell t1 n c) = mongo_scan_qr_code_cell t2 n c"
proof (cases "n = 1")
  case True
  then show ?thesis by (simp add: mongo_scan_qr_code_cell_def)
next
  case False
  note n = this
  show ?thesis
  proof (cases c)
    case None
    let ?xs = "map (\<lambda>i. new_session i (if i < n then ''A'' else ''P'')) [1..<Suc n]"
    from None n have 1: "\<And>t. mongo_scan_qr_code_cell t n c = Some (Sessions ?xs t)"
      by (simp add: mongo_scan_qr_code_cell_def)
    show ?thesis
      unfolding 1 by (rule mongo_scan_fixed[OF n built_ids built_marked]) simp
  next
    case (Some cv)
    show ?thesis
    proof (cases cv)
      case (Simple s)
      let ?xs = "map (\<lambda>i. new_session i (if i = 1 then s else if i < n then ''A'' else ''P'')) [1..<Suc n]"
      from Some Simple n have 1: "\<And>t. mongo_scan_qr_code_cell t n c = Some (Sessions ?xs t)"
        by (simp add: mongo_scan_qr_code_cell_def)
      show ?thesis
        unfolding 1 by (rule mongo_scan_fixed[OF n built_ids built_marked]) (use n in simp)
    next
      case (Counted a b)
      with Some n show ?thesis by (simp add: mongo_scan_qr_code_cell_def)
    next
      case Other
      with Some n show ?thesis by (simp add: mongo_scan_qr_code_cell_def)
    next
      case (Sessions ss u)
      let ?r = "mark_present (session_id n) (fill_missing (set (map s_id ss)) n ''P'' ss)"
      from Some Sessions n have 1: "\<And>t. mongo_scan_qr_code_cell t n c = Some (Sessions ?r t)"
        by (simp add: mongo_scan_qr_code_cell_def)
      have 2: "fill_missing (set (map s_id ?r)) n ''P'' ?r = ?r"
        by (rule fill_missing_twice) (auto simp: map_s_id_mark_present ids_mark_present)
      show ?thesis
        unfolding 1 by (rule mongo_scan_fixed[OF n 2 mark_present_idem])
    qed
  qed
qed

lemma stop_idem:
  "stop_qr_session_cell t2 n (stop_qr_session_cell t1 n c) = stop_qr_session_cell t2 n c"
proof (cases "n = 1")
  case True
  then show ?thesis by (simp add: stop_qr_session_cell_def)
next
  case False
  note n = this
  show ?thesis
  proof (cases c)
    case None
    let ?xs = "map (\<lambda>i. new_session i ''A'') [1..<Suc n]"
    from None n have 1: "\<And>t. stop_qr_session_cell t n c = Some (Sessions ?xs t)"
      by (simp add: stop_qr_session_cell_def)
    show ?thesis
      unfolding 1 by (rule stop_fixed[OF n built_ids])
  next
    case (Some cv)
    show ?thesis
    proof (cases cv)
      case (Simple s)
      let ?xs = "map (\<lambda>i. new_session i (if i = 1 then s else ''A'')) [1..<Suc n]"
      from Some Simple n have 1: "\<And>t. stop_qr_session_cell t n c = Some (Sessions ?xs t)"
        by (simp add: stop_qr_session_cell_def)
      show ?thesis
        unfolding 1 by (rule stop_fixed[OF n built_ids])
    next
      case (Counted a b)
      with Some n show ?thesis by (simp add: stop_qr_session_cell_def)
    next
      case Other
      with Some n show ?thesis by (simp add: stop_qr_session_cell_def)
    next
      case (Sessions ss u)
      let ?r = "fill_missing (set (map s_id ss)) n ''A'' ss"
      from Some Sessions n have 1: "\<And>t. stop_qr_session_cell t n c = Some (Sessions ?r t)"
        by (simp add: stop_qr_session_cell_def)
      have 2: "fill_missing (set (map s_id ?r)) n ''A'' ((\<lambda>x. x) ?r) = (\<lambda>x. x) ?r"
        by (rule fill_missing_twice) auto
      show ?thesis
        unfolding 1 by (rule stop_fixed[OF n]) (use 2 in simp)
    qed
  qed
qed

section \<open>Idempotence of the merge\<close>

text \<open>
  Claim C4. Applying the same verdict for the same session number twice in a row gives the
  cell that applying it once gives: this holds of the scan update of both backends (verdict
  \<open>P\<close>) and of the absence update of \<^verbatim>\<open>stop_qr_session\<close> (verdict \<open>A\<close>), for every cell,
  every session number and every pair of clock readings; the cell keeps the time stamp of the
  last application. No session entry is duplicated, since the second run finds every
  \<open>session_i\<close> by its id.
\<close>

theorem apply_verdict_idempotent:
  "scan_qr_code_cell t2 n (scan_qr_code_cell t1 n c) = scan_qr_code_cell t2 n c
   \<and> mongo_scan_qr_code_cell t2 n (mongo_scan_qr_code_cell t1 n c) = mongo_scan_qr_code_cell t2 n c
   \<and> stop_qr_session_cell t2 n (stop_qr_session_cell t1 n c) = stop_qr_session_cell t2 n c"
  by (simp only: scan_idem mongo_scan_idem stop_idem)

theorem apply_verdict_idempotent_witness:
  "scan_qr_code_cell ''t2'' 3 (scan_qr_code_cell ''t1'' 3 (Some (Sessions [new_session 2 ''L''] ''t0'')))
     = Some (Sessions [new_session 1 ''A'', new_session 2 ''L'', new_session 3 ''P''] ''t2'')
   \<and> stop_qr_session_cell ''t2'' 2 (stop_qr_session_cell ''t1'' 2 (Some (Simple ''P'')))
     = Some (Sessions [new_session 1 ''P'', new_session 2 ''A''] ''t2'')"
proof -
  have 1: "scan_qr_code_cell ''t2'' 3 (Some (Sessions [new_session 2 ''L''] ''t0''))
     = Some (Sessions [new_session 1 ''A'', new_session 2 ''L'', new_session 3 ''P''] ''t2'')"
    by code_simp
  have 2: "stop_qr_session_cell ''t2'' 2 (Some (Simple ''P''))
     = Some (Sessions [new_session 1 ''P'', new_session 2 ''A''] ''t2'')"
    by code_simp
  from apply_verdict_idempotent[of "''t2''" 3 "''t1''" "Some (Sessions [new_session 2 ''L''] ''t0'')"]
       apply_verdict_idempotent[of "''t2''" 2 "''t1''" "Some (Simple ''P'')"]
  show ?thesis by (simp only: 1 2)
qed

section \<open>Student statistics\<close>

lemma spec_marks_Nil [simp]: "spec_marks m [] = 0"
  by (simp add: spec_marks_def)

lemma spec_marks_Cons [simp]: "spec_marks m ((d, c) # att) = cell_marks m c + spec_marks m att"
  by (simp add: spec_marks_def cell_marks_def)

lemma count_sessions_fold:
  "fold (\<lambda>session acc. case s_status session of None \<Rightarrow> acc
                         | Some st \<Rightarrow> count_status st 1 acc) ss (p, a, l, t)
   = (p + int (length (filter (\<lambda>s. s_status s = Some ''P'') ss)),
      a + int (length (filter (\<lambda>s. s_status s = Some ''A'') ss)),
      l + int (length (filter (\<lambda>s. s_status s = Some ''L'') ss)),
      t + int (length (filter (\<lambda>s. s_status s = Some ''P'') ss))
        + int (length (filter (\<lambda>s. s_status s = Some ''A'') ss))
        + int (length (filter (\<lambda>s. s_status s = Some ''L'') ss)))"
proof (induction ss arbitrary: p a l t)
  case Nil
  show ?case by simp
next
  case (Cons s ss)
  show ?case
  proof (cases "s_status s")
    case None
    then show ?thesis by (simp add: Cons.IH)
  next
    case (Some st)
    then show ?thesis by (simp add: Cons.IH count_status_def)
  qed
qed

lemma count_cell_marks:
  assumes "counted_nonneg c"
  shows "count_cell c (p, a, l, t)
   = (p + cell_marks ''P'' c, a + cell_marks ''A'' c, l + cell_marks ''L'' c,
      t + cell_marks ''P'' c + cell_marks ''A'' c + cell_marks ''L'' c)"
proof (cases c)
  case (Simple s)
  then show ?thesis
    by (simp add: count_cell_def cell_marks_def spec_decode_def count_status_def)
next
  case (Counted st k)
  show ?thesis
  proof (cases st)
    case None
    with Counted show ?thesis
      by (simp add: count_cell_def cell_marks_def spec_decode_def)
  next
    case (Some m)
    show ?thesis
    proof (cases k)
      case None
      with Counted Some show ?thesis
        by (simp add: count_cell_def cell_marks_def spec_decode_def count_status_def)
    next
      case (Some j)
      with assms Counted have "0 \<le> j" by simp
      with Counted \<open>st = Some m\<close> Some show ?thesis
        by (auto simp: count_cell_def cell_marks_def spec_decode_def count_status_def)
    qed
  qed
next
  case (Sessions ss u)
  then show ?thesis
    by (simp add: count_cell_def cell_marks_def spec_decode_def count_sessions_fold)
next
  case Other
  then show ?thesis by (simp add: count_cell_def cell_marks_def spec_decode_def)
qed

lemma count_attendance_fold:
  assumes "list_all (\<lambda>(d, c). counted_nonneg c) att"
  shows "fold (\<lambda>(date_key, value) acc. count_cell value acc) att (p, a, l, t)
   = (p + spec_marks ''P'' att, a + spec_marks ''A'' att, l + spec_marks ''L'' att,
      t + spec_marks ''P'' att + spec_marks ''A'' att + spec_marks ''L'' att)"
  using assms
proof (induction att arbitrary: p a l t)
  case Nil
  show ?case by simp
next
  case (Cons x att)
  obtain d c where x: "x = (d, c)" by (cases x)
  from Cons.prems x have c: "counted_nonneg c" and r: "list_all (\<lambda>(d, c). counted_nonneg c) att"
    by simp_all
  show ?case
    by (simp add: x count_cell_marks[OF c] Cons.IH[OF r])
qed

lemma count_attendance_spec:
  assumes "list_all (\<lambda>(d, c). counted_nonneg c) att"
  shows "count_attendance att
   = (spec_marks ''P'' att, spec_marks ''A'' att, spec_marks ''L'' att,
      spec_marks ''P'' att + spec_marks ''A'' att + spec_marks ''L'' att)"
  unfolding count_attendance_def count_attendance_fold[OF assms] by simp

text \<open>
  Claim C5. For a student record whose \<open>{status, count}\<close> cells have a count that is not
  negative, the statistics the code computes are those of the specification: every date's cell
  is decoded whatever its shape, only the entries marked \<open>P\<close>, \<open>A\<close> or \<open>L\<close> are counted into
  present, absent, late and their total, the percentage is \<open>(present + late) / total * 100\<close>
  (0 when the total is not positive) returned rounded to 3 digits, the status is the first of
  excellent, good, moderate whose cut-off the unrounded percentage reaches and \<open>at risk\<close>
  otherwise, and an empty attendance mapping gives zeros and the status \<open>no data\<close>.
\<close>

theorem student_statistics_refine:
  assumes "list_all (\<lambda>(d, c). counted_nonneg c) (st_attendance student_record)"
  shows "calculate_student_statistics ar student_record thresholds
       = spec_student_statistics ar (st_attendance student_record) (effective_thresholds thresholds)"
  by (simp add: calculate_student_statistics_def spec_student_statistics_def
        effective_thresholds_def spec_bucket_def count_attendance_spec[OF assms] Let_def)

theorem student_statistics_refine_witness:
  "list_all (\<lambda>(d, c). counted_nonneg c) (st_attendance ex_mixed_student)
   \<and> calculate_student_statistics ideal_arith ex_mixed_student None
     = \<lparr>total_classes = 5, present = 2, absent = 2, late = 1, percentage = 60, status = ''at risk''\<rparr>"
proof -
  have h: "list_all (\<lambda>(d, c). counted_nonneg c) (st_attendance ex_mixed_student)"
    by code_simp
  have e: "spec_student_statistics ideal_arith (st_attendance ex_mixed_student) (effective_thresholds None)
     = \<lparr>total_classes = 5, present = 2, absent = 2, late = 1, percentage = 60, status = ''at risk''\<rparr>"
    by code_simp
  from student_statistics_refine[OF h, of ideal_arith None] e h show ?thesis by simp
qed

lemma no_valid_marks:
  assumes "spec_no_valid_entry c" and "m \<in> {''P'', ''A'', ''L''}"
  shows "filter (\<lambda>s. s_status s = Some m) (spec_decode (Some c)) = []"
proof -
  from assms(1) have "\<forall>s \<in> set (spec_decode (Some c)). s_status s \<notin> {Some ''P'', Some ''A'', Some ''L''}"
    by (simp add: spec_no_valid_entry_def filter_empty_conv)
  with assms(2) show ?thesis by (auto simp: filter_empty_conv)
qed

lemma count_cell_no_valid:
  assumes "spec_no_valid_entry c"
  shows "\<exists>p' a' l' t'. count_cell c (p, a, l, t) = (p', a', l', t') \<and> t' \<le> t"
proof (cases c)
  case (Simple s)
  from no_valid_marks[OF assms, of s] Simple have "s \<notin> {''P'', ''A'', ''L''}"
    by (auto simp: spec_decode_def split: if_splits)
  with Simple show ?thesis by (simp add: count_cell_def count_status_def)
next
  case (Counted st k)
  show ?thesis
  proof (cases st)
    case None
    with Counted show ?thesis by (simp add: count_cell_def)
  next
    case (Some m)
    show ?thesis
    proof (cases "m \<in> {''P'', ''A'', ''L''}")
      case False
      with Counted Some show ?thesis by (simp add: count_cell_def count_status_def)
    next
      case True
      let ?n = "nat (case k of None \<Rightarrow> 1 | Some j \<Rightarrow> j)"
      from no_valid_marks[OF assms True] Counted Some
      have "length (filter (\<lambda>s. s_status s = Some m)
              (map (\<lambda>i. \<lparr>s_id = session_id i, s_name = ''Session '' @ str_nat i, s_status = Some m\<rparr>)
                 [1..<Suc ?n])) = 0"
        by (simp only: spec_decode_def option.case cell.case list.size)
      then have "length [1..<Suc ?n] = 0"
        by (simp add: filter_map comp_def del: upt_Suc)
      then have "?n = 0" by (simp del: upt_Suc)
      then have "(case k of None \<Rightarrow> 1 | Some j \<Rightarrow> j) \<le> 0" by simp
      with Counted Some show ?thesis
        by (auto simp: count_cell_def count_status_def)
    qed
  qed
next
  case (Sessions ss u)
  from assms Sessions have
    "filter (\<lambda>s. s_status s = Some ''P'') ss = []"
    "filter (\<lambda>s. s_status s = Some ''A'') ss = []"
    "filter (\<lambda>s. s_status s = Some ''L'') ss = []"
    using no_valid_marks[OF assms, of "''P''"] no_valid_marks[OF assms, of "''A''"]
      no_valid_marks[OF assms, of "''L''"]
    by (simp_all add: spec_decode_def)
  with Sessions show ?thesis
    by (simp add: count_cell_def count_sessions_fold)
next
  case Other
  then show ?thesis by (simp add: count_cell_def)
qed

lemma count_attendance_no_valid_fold:
  assumes "list_all (\<lambda>(d, c). spec_no_valid_entry c) att"
  shows "\<exists>p' a' l' t'. fold (\<lambda>(date_key, value) acc. count_cell value acc) att (p, a, l, t)
            = (p', a', l', t') \<and> t' \<le> t"
  using assms
proof (induction att arbitrary: p a l t)
  case Nil
  show ?case by simp
next
  case (Cons x att)
  obtain d c where x: "x = (d, c)" by (cases x)
  from Cons.prems x have c: "spec_no_valid_entry c"
    and r: "list_all (\<lambda>(d, c). spec_no_valid_entry c) att" by simp_all
  from count_cell_no_valid[OF c, of p a l t] obtain p1 a1 l1 t1
    where 1: "count_cell c (p, a, l, t) = (p1, a1, l1, t1)" and t1: "t1 \<le> t" by blast
  from Cons.IH[OF r, of p1 a1 l1 t1] obtain p2 a2 l2 t2
    where 2: "fold (\<lambda>(date_key, value) acc. count_cell value acc) att (p1, a1, l1, t1) = (p2, a2, l2, t2)"
      and t2: "t2 \<le> t1" by blast
  from 1 2 t1 t2 show ?case by (simp add: x)
qed

text \<open>
  Claim C10, as amended. For a non-empty attendance mapping none of whose cells decodes to an
  entry marked \<open>P\<close>, \<open>A\<close> or \<open>L\<close>, whatever the cut-offs are: the percentage returned is
  \<open>round(0.0, 3)\<close>, that is 0, the status is the bucket of the percentage 0 and is never
  \<open>no data\<close>; and when the excellent, good and moderate cut-offs in force are all positive (the
  defaults 95, 90 and 85 are) the status is \<open>at risk\<close>.
\<close>

theorem no_valid_entry_at_risk:
  assumes "st_attendance student_record \<noteq> []"
      and "list_all (\<lambda>(d, c). spec_no_valid_entry c) (st_attendance student_record)"
  shows "percentage (calculate_student_statistics ar student_record thresholds) = round_nd ar 3 0
       \<and> (round_nd ar 3 0 = 0
            \<longrightarrow> percentage (calculate_student_statistics ar student_record thresholds) = 0)
       \<and> status (calculate_student_statistics ar student_record thresholds)
           = spec_bucket (effective_thresholds thresholds) 0
       \<and> status (calculate_student_statistics ar student_record thresholds) \<noteq> ''no data''
       \<and> (0 < get_threshold (effective_thresholds thresholds) ''excellent'' 95
            \<and> 0 < get_threshold (effective_thresholds thresholds) ''good'' 90
            \<and> 0 < get_threshold (effective_thresholds thresholds) ''moderate'' 85
            \<longrightarrow> status (calculate_student_statistics ar student_record thresholds) = ''at risk'')"
proof -
  let ?r = "calculate_student_statistics ar student_record thresholds"
  from count_attendance_no_valid_fold[OF assms(2), of 0 0 0 0] obtain p a l t
    where c: "count_attendance (st_attendance student_record) = (p, a, l, t)" and t: "t \<le> 0"
    unfolding count_attendance_def by blast
  from assms(1) c t have pct: "percentage ?r = round_nd ar 3 0"
    by (simp add: calculate_student_statistics_def Let_def)
  from assms(1) c t have st: "status ?r = spec_bucket (effective_thresholds thresholds) 0"
    by (simp add: calculate_student_statistics_def effective_thresholds_def spec_bucket_def Let_def)
  have nd: "spec_bucket (effective_thresholds thresholds) 0 \<noteq> ''no data''"
    by (simp add: spec_bucket_def)
  have risk: "0 < get_threshold (effective_thresholds thresholds) ''excellent'' 95
            \<and> 0 < get_threshold (effective_thresholds thresholds) ''good'' 90
            \<and> 0 < get_threshold (effective_thresholds thresholds) ''moderate'' 85
            \<longrightarrow> spec_bucket (effective_thresholds thresholds) 0 = ''at risk''"
    by (simp add: spec_bucket_def)
  from pct st nd risk show ?thesis by simp
qed

theorem no_valid_entry_at_risk_witness:
  "st_attendance ex_null_slot_student \<noteq> []
   \<and> list_all (\<lambda>(d, c). spec_no_valid_entry c) (st_attendance ex_null_slot_student)
   \<and> percentage (calculate_student_statistics ideal_arith ex_null_slot_student None) = 0
   \<and> status (calculate_student_statistics ideal_arith ex_null_slot_student None) \<noteq> ''no data''
   \<and> status (calculate_student_statistics ideal_arith ex_null_slot_student None) = ''at risk''"
proof -
  have 1: "st_attendance ex_null_slot_student \<noteq> []" by code_simp
  have 2: "list_all (\<lambda>(d, c). spec_no_valid_entry c) (st_attendance ex_null_slot_student)"
    by code_simp
  have 3: "0 < get_threshold (effective_thresholds None) ''excellent'' 95" by code_simp
  have 4: "0 < get_threshold (effective_thresholds None) ''good'' 90" by code_simp
  have 5: "0 < get_threshold (effective_thresholds None) ''moderate'' 85" by code_simp
  have 6: "round_nd ideal_arith 3 0 = 0" by code_simp
  note t = no_valid_entry_at_risk[OF 1 2, of ideal_arith None]
  from t 6 have p: "percentage (calculate_student_statistics ideal_arith ex_null_slot_student None) = 0"
    by blast
  from t have nd: "status (calculate_student_statistics ideal_arith ex_null_slot_student None) \<noteq> ''no data''"
    by blast
  from t 3 4 5 have r: "status (calculate_student_statistics ideal_arith ex_null_slot_student None) = ''at risk''"
    by blast
  from 1 2 p nd r show ?thesis by (intro conjI)
qed

text \<open>
  Claim C10 as stated fails where a cut-off is not positive: with \<open>thresholds = {"excellent": 0}\<close>
  the record whose only cell is a session slot with a \<open>null\<close> status is rated \<open>excellent\<close>.
\<close>

theorem no_valid_entry_not_at_risk_counterexample:
  "st_attendance ex_null_slot_student \<noteq> []
   \<and> list_all (\<lambda>(d, c). spec_no_valid_entry c) (st_attendance ex_null_slot_student)
   \<and> status (calculate_student_statistics ideal_arith ex_null_slot_student (Some [(''excellent'', 0)]))
       = ''excellent''"
  by code_simp


section \<open>Shapes the scan update misses\<close>

text \<open>
  Claim C2. A scan at session 3 of a student whose cell is \<open>{"status": "P", "count": 2}\<close>
  matches no branch of either backend's update: the cell is left as it was, with its two
  sessions and no \<open>session_3\<close>, while \<^verbatim>\<open>scan_qr_code\<close> goes on to report the scan as marked.
\<close>

theorem scan_leaves_counted_cell:
  "scan_qr_code_cell ''now'' 3 (Some (Counted (Some ''P'') (Some 2))) = Some (Counted (Some ''P'') (Some 2))
   \<and> mongo_scan_qr_code_cell ''now'' 3 (Some (Counted (Some ''P'') (Some 2)))
       = Some (Counted (Some ''P'') (Some 2))
   \<and> map s_id (spec_decode (Some (Counted (Some ''P'') (Some 2)))) = [''session_1'', ''session_2'']"
  by code_simp

text \<open>
  Claim C3. At session number 1 the document backend replaces whatever the cell holds by the
  string \<open>'P'\<close>: a \<open>sessions\<close> list loses every entry. The file backend overwrites the status
  of the first entry and keeps the others.
\<close>

theorem mongo_scan_session_one_drops_sessions:
  "mongo_scan_qr_code_cell ''now'' 1 (Some (Sessions [new_session 1 ''A'', new_session 2 ''L''] ''t0''))
     = Some (Simple ''P'')
   \<and> scan_qr_code_cell ''now'' 1 (Some (Sessions [new_session 1 ''A'', new_session 2 ''L''] ''t0''))
     = Some (Sessions [new_session 1 ''P'', new_session 2 ''L''] ''now'')"
  by code_simp

section \<open>Unenrolling and enrolling again\<close>

lemma update_first_unique:
  assumes "filter P xs = [e]" and "Q e" and "\<And>x. Q x \<Longrightarrow> P x" and "\<And>x. P (f x) = P x"
  shows "filter P (update_first Q f xs) = [f e]"
    and "filter (\<lambda>x. \<not> P x) (update_first Q f xs) = filter (\<lambda>x. \<not> P x) xs"
  using assms(1)
proof (induction xs)
  case Nil
  { case 1 then show ?case by simp }
  { case 2 then show ?case by simp }
next
  case (Cons x xs)
  { case 1
    show ?case
    proof (cases "P x")
      case True
      with 1 have x: "x = e" and r: "filter P xs = []" by simp_all
      with assms(2,4) True show ?thesis by simp
    next
      case False
      with 1 have r: "filter P xs = [e]" by simp
      from False assms(3) have "\<not> Q x" by blast
      with False Cons.IH(1)[OF r] show ?thesis by simp
    qed }
  { case 2
    show ?case
    proof (cases "P x")
      case True
      with 2 have x: "x = e" and r: "filter P xs = []" by simp_all
      with assms(2,4) True show ?thesis by simp
    next
      case False
      with 2 have r: "filter P xs = [e]" by simp
      from False assms(3) have "\<not> Q x" by blast
      with False Cons.IH(2)[OF r] show ?thesis by simp
    qed }
qed

lemma find_unique: "filter P xs = [e] \<Longrightarrow> find P xs = Some e"
  by (induction xs) (auto split: if_splits)

lemma list_ex_filter_conj: "list_ex (\<lambda>x. P x \<and> Q x) xs = list_ex Q (filter P xs)"
  by (induction xs) auto

lemma update_first_map:
  assumes "\<And>x. g (f x) = g x"
  shows "map g (update_first Q f xs) = map g xs"
  by (induction xs) (auto simp: assms)

lemma overview_enrollments [simp]:
  "enrollment_files (update_user_overview ar now db u) = enrollment_files db"
  by (simp add: update_user_overview_def)

lemma overview_students [simp]:
  "map_option c_students (classes (update_user_overview ar now db u) c) = map_option c_students (classes db c)"
  by (simp add: update_user_overview_def split: option.splits)

lemma overview_teacher [simp]:
  "map_option c_teacher_id (classes (update_user_overview ar now db u) c) = map_option c_teacher_id (classes db c)"
  by (simp add: update_user_overview_def split: option.splits)

lemma overview_read_enrollments [simp]:
  "read_enrollments (update_user_overview ar now db u) c = read_enrollments db c"
  by (simp add: read_enrollments_def)

lemma overview_roster [simp]: "roster (update_user_overview ar now db u) c = roster db c"
proof -
  have "roster db c = map_option (map (\<lambda>s. (st_id s, st_attendance s))) (map_option c_students (classes db c))" for db :: "'a db"
    by (simp add: roster_def option.map_comp comp_def)
  then show ?thesis by simp
qed

lemma roster_enrollment_files [simp]: "roster (db\<lparr>enrollment_files := x\<rparr>) c = roster db c"
  by (simp add: roster_def)

lemma unenroll_active:
  assumes "list_ex (\<lambda>e. e_student_id e = student_id \<and> e_status e = ''active'') (read_enrollments db class_id)"
  shows "fst (unenroll_student ar db student_id class_id now) = True"
    and "read_enrollments (snd (unenroll_student ar db student_id class_id now)) class_id
         = update_first (\<lambda>e. e_student_id e = student_id \<and> e_status e = ''active'')
             (\<lambda>e. e\<lparr>e_status := ''inactive'', e_unenrolled_at := Some now\<rparr>) (read_enrollments db class_id)"
    and "roster (snd (unenroll_student ar db student_id class_id now)) c = roster db c"
    and "map_option c_teacher_id (classes (snd (unenroll_student ar db student_id class_id now)) c)
         = map_option c_teacher_id (classes db c)"
    and "map_option c_students (classes (snd (unenroll_student ar db student_id class_id now)) c)
         = map_option c_students (classes db c)"
  using assms
  by (auto simp: unenroll_student_def Let_def read_enrollments_def split: option.splits)


lemma read_enrollments_classes [simp]:
  "read_enrollments (db\<lparr>classes := x\<rparr>) c = read_enrollments db c"
  by (simp add: read_enrollments_def)

lemma read_enrollments_files:
  "read_enrollments (db\<lparr>enrollment_files := m\<rparr>) c = (case m c of None \<Rightarrow> [] | Some es \<Rightarrow> es)"
  by (simp add: read_enrollments_def)

lemma roster_classes:
  "roster (db\<lparr>classes := m\<rparr>) c
     = map_option (\<lambda>cd. map (\<lambda>s. (st_id s, st_attendance s)) (c_students cd)) (m c)"
  by (simp add: roster_def)

lemma enroll_reactivates:
  assumes cls: "classes db class_id = Some class_data"
      and teacher: "c_teacher_id class_data = Some teacher_id" "teacher_id \<noteq> []"
      and only: "enrollments_of db class_id student_id = [prev]"
      and inactive: "e_status prev \<noteq> ''active''"
      and has_record: "list_ex (\<lambda>s. st_id s = e_student_record_id prev) (c_students class_data)"
  shows "map_sum id (\<lambda>(r, db2). (er_student_record_id r, er_status r,
                                  enrollments_of db2 class_id student_id,
                                  other_enrollments db2 class_id student_id, roster db2 class_id))
           (enroll_student ar db student_id class_id info new_record_id now)
       = Inr (e_student_record_id prev, ''re-enrolled'',
              [prev\<lparr>e_status := ''active'', e_re_enrolled_at := Some now, e_roll_no := i_rollNo info\<rparr>],
              other_enrollments db class_id student_id, roster db class_id)"
proof -
  let ?P = "\<lambda>e. e_student_id e = student_id"
  let ?f = "\<lambda>e. e\<lparr>e_status := ''active'', e_re_enrolled_at := Some now, e_roll_no := i_rollNo info\<rparr>"
  let ?ens = "read_enrollments db class_id"
  from only have flt: "filter ?P ?ens = [prev]" by (simp add: enrollments_of_def)
  have no_active: "\<not> list_ex (\<lambda>e. e_student_id e = student_id \<and> e_status e = ''active'') ?ens"
    using inactive by (simp add: list_ex_filter_conj flt)
  have found: "find ?P ?ens = Some prev" by (rule find_unique[OF flt])
  have u1: "filter ?P (update_first ?P ?f ?ens) = [?f prev]"
    by (rule update_first_unique(1)[OF flt]) (use flt in \<open>auto simp: filter_eq_Cons_iff\<close>)
  have u2: "filter (\<lambda>e. \<not> ?P e) (update_first ?P ?f ?ens) = filter (\<lambda>e. \<not> ?P e) ?ens"
    by (rule update_first_unique(2)[OF flt]) (use flt in \<open>auto simp: filter_eq_Cons_iff\<close>)
  have st: "map (\<lambda>s. (st_id s, st_attendance s))
              (update_first (\<lambda>s. st_id s = e_student_record_id prev)
                 (\<lambda>s. s\<lparr>st_rollNo := i_rollNo info, st_name := i_name info\<rparr>) (c_students class_data))
          = map (\<lambda>s. (st_id s, st_attendance s)) (c_students class_data)"
    by (rule update_first_map) simp
  have r0: "roster db class_id = Some (map (\<lambda>s. (st_id s, st_attendance s)) (c_students class_data))"
    by (simp add: roster_def cls)
  show ?thesis
    unfolding enroll_student_def
    by (simp add: cls teacher no_active found Let_def has_record enrollments_of_def
          other_enrollments_def read_enrollments_files roster_classes u1 u2 r0 st)
qed


text \<open>
  Claim C9. Let a student have exactly one enrollment entry in the class, an active one, whose
  record is on the roster. Unenrolling succeeds and changes that entry's status to inactive and
  its unenrollment time, and nothing else: every other enrollment and the roster, with each
  record's identifier and whole attendance mapping, are as before. Enrolling again then
  answers \<open>re-enrolled\<close> with the original record identifier, sets the same entry active again,
  creates no record, and leaves every identifier and attendance mapping of the roster as it
  was before the unenrollment.
\<close>

theorem unenroll_reenroll_keeps_record:
  assumes cls: "classes db class_id = Some class_data"
      and teacher: "c_teacher_id class_data = Some teacher_id" "teacher_id \<noteq> []"
      and only: "enrollments_of db class_id student_id = [e]"
      and active: "e_status e = ''active''"
      and has_record: "list_ex (\<lambda>s. st_id s = e_student_record_id e) (c_students class_data)"
  shows "(let db1 = snd (unenroll_student ar db student_id class_id t1)
          in fst (unenroll_student ar db student_id class_id t1)
           \<and> enrollments_of db1 class_id student_id
               = [e\<lparr>e_status := ''inactive'', e_unenrolled_at := Some t1\<rparr>]
           \<and> other_enrollments db1 class_id student_id = other_enrollments db class_id student_id
           \<and> roster db1 class_id = roster db class_id
           \<and> map_sum id (\<lambda>(r, db2). (er_student_record_id r, er_status r,
                                        enrollments_of db2 class_id student_id,
                                        other_enrollments db2 class_id student_id,
                                        roster db2 class_id))
                 (enroll_student ar db1 student_id class_id info new_record_id t2)
               = Inr (e_student_record_id e, ''re-enrolled'',
                      [e\<lparr>e_status := ''active'', e_unenrolled_at := Some t1,
                         e_re_enrolled_at := Some t2, e_roll_no := i_rollNo info\<rparr>],
                      other_enrollments db class_id student_id, roster db class_id))"
proof -
  let ?P = "\<lambda>e. e_student_id e = student_id"
  let ?Q = "\<lambda>e. e_student_id e = student_id \<and> e_status e = ''active''"
  let ?f = "\<lambda>e. e\<lparr>e_status := ''inactive'', e_unenrolled_at := Some t1\<rparr>"
  let ?ens = "read_enrollments db class_id"
  let ?db1 = "snd (unenroll_student ar db student_id class_id t1)"
  from only have flt: "filter ?P ?ens = [e]" by (simp add: enrollments_of_def)
  have ex: "list_ex ?Q ?ens"
    using active by (simp add: list_ex_filter_conj flt)
  note un = unenroll_active[OF ex, of ar t1]
  have u1: "filter ?P (update_first ?Q ?f ?ens) = [?f e]"
    by (rule update_first_unique(1)[OF flt]) (use flt active in \<open>auto simp: filter_eq_Cons_iff\<close>)
  have u2: "filter (\<lambda>e. \<not> ?P e) (update_first ?Q ?f ?ens) = filter (\<lambda>e. \<not> ?P e) ?ens"
    by (rule update_first_unique(2)[OF flt]) (use flt active in \<open>auto simp: filter_eq_Cons_iff\<close>)
  have e1: "enrollments_of ?db1 class_id student_id = [?f e]"
    by (simp add: enrollments_of_def un(2) u1)
  have o1: "other_enrollments ?db1 class_id student_id = other_enrollments db class_id student_id"
    by (simp add: other_enrollments_def un(2) u2)
  have r1: "roster ?db1 class_id = roster db class_id" by (rule un(3))
  from un(4)[of class_id] un(5)[of class_id] cls teacher obtain cd1
    where cls1: "classes ?db1 class_id = Some cd1"
      and t1: "c_teacher_id cd1 = Some teacher_id"
      and s1: "c_students cd1 = c_students class_data"
    by (cases "classes ?db1 class_id") auto
  have inactive: "e_status (?f e) \<noteq> ''active''" by simp
  have rec1: "list_ex (\<lambda>s. st_id s = e_student_record_id (?f e)) (c_students cd1)"
    using has_record by (simp add: s1)
  from enroll_reactivates[OF cls1 t1 teacher(2) e1 inactive rec1, of ar info new_record_id t2]
  have en: "map_sum id (\<lambda>(r, db2). (er_student_record_id r, er_status r,
                                        enrollments_of db2 class_id student_id,
                                        other_enrollments db2 class_id student_id,
                                        roster db2 class_id))
                 (enroll_student ar ?db1 student_id class_id info new_record_id t2)
               = Inr (e_student_record_id e, ''re-enrolled'',
                      [e\<lparr>e_status := ''active'', e_unenrolled_at := Some t1,
                         e_re_enrolled_at := Some t2, e_roll_no := i_rollNo info\<rparr>],
                      other_enrollments db class_id student_id, roster db class_id)"
    by (simp add: o1 r1)
  from un(1) e1 o1 r1 en show ?thesis by (simp only: Let_def simp_thms)
qed

theorem unenroll_reenroll_keeps_record_witness:
  "roster ex_stop_db ''c1'' = Some [(1, [(''2024-01-10'', Simple ''P'')]), (2, [])]
   \<and> (let db1 = snd (unenroll_student ideal_arith ex_stop_db ''sX'' ''c1'' ''2024-02-01T08:00:00'')
      in fst (unenroll_student ideal_arith ex_stop_db ''sX'' ''c1'' ''2024-02-01T08:00:00'')
       \<and> enrollments_of db1 ''c1'' ''sX''
           = [(ex_enrollment ''sX'' 1)\<lparr>e_status := ''inactive'',
                                       e_unenrolled_at := Some ''2024-02-01T08:00:00''\<rparr>]
       \<and> other_enrollments db1 ''c1'' ''sX'' = other_enrollments ex_stop_db ''c1'' ''sX''
       \<and> roster db1 ''c1'' = roster ex_stop_db ''c1''
       \<and> map_sum id (\<lambda>(r, db2). (er_student_record_id r, er_status r,
                                    enrollments_of db2 ''c1'' ''sX'',
                                    other_enrollments db2 ''c1'' ''sX'', roster db2 ''c1''))
             (enroll_student ideal_arith db1 ''sX'' ''c1''
                \<lparr>i_name = ''X'', i_rollNo = ''11'', i_email = ''x@example.org''\<rparr> 99
                ''2024-03-01T08:00:00'')
           = Inr (e_student_record_id (ex_enrollment ''sX'' 1), ''re-enrolled'',
                  [(ex_enrollment ''sX'' 1)\<lparr>e_status := ''active'',
                      e_unenrolled_at := Some ''2024-02-01T08:00:00'',
                      e_re_enrolled_at := Some ''2024-03-01T08:00:00'',
                      e_roll_no := i_rollNo \<lparr>i_name = ''X'', i_rollNo = ''11'', i_email = ''x@example.org''\<rparr>\<rparr>],
                  other_enrollments ex_stop_db ''c1'' ''sX'', roster ex_stop_db ''c1''))"
proof -
  have 0: "roster ex_stop_db ''c1'' = Some [(1, [(''2024-01-10'', Simple ''P'')]), (2, [])]"
    by code_simp
  have 1: "classes ex_stop_db ''c1'' = Some ex_stop_class" by (simp add: ex_stop_db_def)
  have 2: "c_teacher_id ex_stop_class = Some ''t1''" by (simp add: ex_stop_class_def)
  have 3: "''t1'' \<noteq> []" by simp
  have 4: "enrollments_of ex_stop_db ''c1'' ''sX'' = [ex_enrollment ''sX'' 1]" by code_simp
  have 5: "e_status (ex_enrollment ''sX'' 1) = ''active''" by code_simp
  have 6: "list_ex (\<lambda>s. st_id s = e_student_record_id (ex_enrollment ''sX'' 1)) (c_students ex_stop_class)"
    by code_simp
  from unenroll_reenroll_keeps_record[OF 1 2 3 4 5 6, of ideal_arith "''2024-02-01T08:00:00''"
         "\<lparr>i_name = ''X'', i_rollNo = ''11'', i_email = ''x@example.org''\<rparr>" 99
         "''2024-03-01T08:00:00''"] 0
  show ?thesis by simp
qed

section \<open>Where the two backends part\<close>

text \<open>
  Claim C1. A class whose only student already holds two valid sessions for the date, and for
  which no QR session was ever recorded: the document backend numbers the new session 1, from
  the (empty) QR session collection, where the stored attendance gives 2 valid sessions and the
  file backend numbers it 3.
\<close>

theorem mongo_start_ignores_attendance:
  "map_sum id (\<lambda>r. q_session_number (fst r))
       (mongo_start_qr_session (ex_mongo ex_two_sessions_class) ''c1'' ''t1'' ''2024-01-10'' 5
          ''AB12CD34'' ''2024-01-10T11:00:00'') = Inr 1
   \<and> count_valid_sessions_for_date ex_two_sessions_class ''2024-01-10'' = 2
   \<and> map_sum id (\<lambda>r. q_session_number (fst r))
       (start_qr_session (ex_db ex_two_sessions_class) ''c1'' ''t1'' ''2024-01-10'' 5
          ''AB12CD34'' ''2024-01-10T11:00:00'') = Inr 3"
  by code_simp

text \<open>
  Claim C6. A class of one student whose only mark is \<open>L\<close>: the document backend reports an
  average of 0 (it counts the dates that hold a \<open>P\<close> and has no at-risk or excellent count),
  the file backend 100 with one excellent student. Every intermediate value is an integer, so
  no rounding is involved.
\<close>

theorem mongo_class_statistics_ignores_late:
  "mongo_calculate_class_statistics ideal_arith ex_late_class
     = \<lparr>m_totalStudents = 1, m_averageAttendance = 0, m_totalSessions = 1\<rparr>
   \<and> calculate_class_statistics ideal_arith ''now'' ex_late_class
     = \<lparr>totalStudents = 1, avgAttendance = 100, atRiskCount = 0, excellentCount = 1,
        lastCalculated = Some ''now''\<rparr>"
  by code_simp

text \<open>
  Claim C7. Two enrolled students, one of whom scanned in QR session 1: stopping the session
  counts one scan and one absence and marks the other student \<open>A\<close>, and the class file is
  written back with the statistics it was read with (average 0, nobody at risk), where a
  recomputation gives an average of 50 with one student at risk and one excellent.
\<close>

theorem stop_keeps_stale_statistics:
  "(case stop_qr_session ex_stop_db ''c1'' ''t1'' ''2024-01-10'' ''2024-01-10T10:00:00'' of
      Inl e \<Rightarrow> None
    | Inr (r, db') \<Rightarrow>
        map_option (\<lambda>c. (r_scanned_count r, r_absent_count r, map st_attendance (c_students c),
                          c_statistics c,
                          calculate_class_statistics ideal_arith ''2024-01-10T10:00:00'' c))
          (classes db' ''c1''))
   = Some (1, 1, [[(''2024-01-10'', Simple ''P'')], [(''2024-01-10'', Simple ''A'')]],
           Some \<lparr>totalStudents = 2, avgAttendance = 0, atRiskCount = 0, excellentCount = 0,
                  lastCalculated = Some ''2024-01-09T08:00:00''\<rparr>,
           \<lparr>totalStudents = 2, avgAttendance = 50, atRiskCount = 1, excellentCount = 1,
            lastCalculated = Some ''2024-01-10T10:00:00''\<rparr>)"
  by code_simp

text \<open>
  Claim C8. For a class in manual-entry mode the document backend starts an active QR session,
  number 1; the file backend rejects the start with its enrollment-mode error.
\<close>

theorem mongo_start_ignores_enrollment_mode:
  "map_option c_enrollment_mode (m_classes (ex_mongo ex_manual_class) ''c1'') = Some (Some ''manual_entry'')
   \<and> map_sum id (\<lambda>r. (q_status (fst r), q_session_number (fst r)))
       (mongo_start_qr_session (ex_mongo ex_manual_class) ''c1'' ''t1'' ''2024-01-10'' 5
          ''AB12CD34'' ''2024-01-10T11:00:00'') = Inr (''active'', 1)
   \<and> map_sum id (\<lambda>r. q_session_number (fst r))
       (start_qr_session (ex_db ex_manual_class) ''c1'' ''t1'' ''2024-01-10'' 5
          ''AB12CD34'' ''2024-01-10T11:00:00'')
     = Inl (ValueError ''QR attendance is only available for classes with student enrollment via Class ID'')"
  by code_simp

section \<open>What the file backend does as specified\<close>

text \<open>
  The file backend numbers a new session from the stored attendance: on cells of the data model
  \<^verbatim>\<open>_count_valid_sessions_for_date\<close> is the highest valid count over the roster, and a
  started session carries that count plus one.
\<close>

lemma count_valid_step_spec:
  assumes "case map_of (st_attendance s) date of None \<Rightarrow> True | Some c \<Rightarrow> stored_as_specified c"
      and "0 \<le> m"
  shows "count_valid_step date s m = max m (int (spec_valid_count (map_of (st_attendance s) date)))"
proof (cases "map_of (st_attendance s) date")
  case None
  with assms(2) show ?thesis by (simp add: count_valid_step_def spec_valid_count_def spec_decode_def)
next
  case (Some c)
  note m = assms(2)
  from Some assms(1) have c: "stored_as_specified c" by simp
  show ?thesis
  proof (cases c)
    case (Simple x)
    with c Some show ?thesis
      by (auto simp: count_valid_step_def spec_valid_count_def spec_decode_def)
  next
    case (Counted st k)
    show ?thesis
    proof (cases st)
      case None
      with Counted Some m show ?thesis
        by (simp add: count_valid_step_def spec_valid_count_def spec_decode_def)
    next
      case (Some m')
      note st = this
      show ?thesis
      proof (cases k)
        case None
        with Counted st \<open>map_of (st_attendance s) date = Some c\<close> show ?thesis
          by (simp add: count_valid_step_def spec_valid_count_def spec_decode_def)
      next
        case (Some j)
        with c Counted have "0 \<le> j" by simp
        with Counted st Some \<open>map_of (st_attendance s) date = Some c\<close> show ?thesis
          by (simp add: count_valid_step_def spec_valid_count_def spec_decode_def del: upt_Suc)
      qed
    qed
  next
    case (Sessions ss u)
    with Some show ?thesis
      by (simp add: count_valid_step_def spec_valid_count_def spec_decode_def)
  next
    case Other
    with Some m show ?thesis
      by (simp add: count_valid_step_def spec_valid_count_def spec_decode_def)
  qed
qed

lemma count_valid_fold_spec:
  assumes "list_all (\<lambda>s. case map_of (st_attendance s) date of None \<Rightarrow> True
                          | Some c \<Rightarrow> stored_as_specified c) students"
      and "0 \<le> m"
  shows "fold (count_valid_step date) students m
       = max m (int (Max (insert 0 ((\<lambda>s. spec_valid_count (map_of (st_attendance s) date)) ` set students))))"
  using assms
proof (induction students arbitrary: m)
  case Nil
  then show ?case by simp
next
  case (Cons s students)
  let ?f = "\<lambda>s. spec_valid_count (map_of (st_attendance s) date)"
  note m = Cons.prems(2)
  have m': "0 \<le> max m (int (?f s))" using m by simp
  from Cons.prems have s: "case map_of (st_attendance s) date of None \<Rightarrow> True | Some c \<Rightarrow> stored_as_specified c"
    and r: "list_all (\<lambda>s. case map_of (st_attendance s) date of None \<Rightarrow> True
                          | Some c \<Rightarrow> stored_as_specified c) students" by simp_all
  have M: "Max (insert 0 (?f ` set (s # students))) = max (?f s) (Max (insert 0 (?f ` set students)))"
  proof -
    have "insert 0 (?f ` set (s # students)) = insert (?f s) (insert 0 (?f ` set students))" by auto
    then show ?thesis by (simp only: Max_insert[OF _ insert_not_empty] finite_insert finite_imageI finite_set)
  qed
  show ?case
    unfolding fold_Cons comp_def count_valid_step_spec[OF s m] Cons.IH[OF r m'] M
    by (simp add: max.assoc)
qed

lemma count_valid_sessions_spec:
  assumes "day_cells_as_specified class_data date"
  shows "count_valid_sessions_for_date class_data date = int (spec_max_valid_count class_data date)"
proof (cases "c_students class_data = []")
  case True
  then show ?thesis by (simp add: count_valid_sessions_for_date_def spec_max_valid_count_def)
next
  case False
  with count_valid_fold_spec[OF assms[unfolded day_cells_as_specified_def] order_refl] show ?thesis
    by (simp add: count_valid_sessions_for_date_def spec_max_valid_count_def)
qed

lemma start_qr_session_number:
  assumes "day_cells_as_specified class_data date"
      and "classes db class_id = Some class_data"
      and "start_qr_session db class_id teacher_id date rotation_interval code now = Inr (q, db')"
  shows "q_session_number q = spec_max_valid_count class_data date + 1"
  using assms(2,3) count_valid_sessions_spec[OF assms(1)]
  by (auto simp: start_qr_session_def Let_def split: if_splits option.splits)

text \<open>The file backend rejects a start for a class outside enrollment mode and for a date
  that has an active session.\<close>

lemma start_qr_session_rejects:
  assumes "classes db class_id = Some class_data"
  shows "(case c_enrollment_mode class_data of None \<Rightarrow> ''manual_entry'' | Some m \<Rightarrow> m) \<noteq> ''enrollment_via_id''
           \<Longrightarrow> \<exists>msg. start_qr_session db class_id teacher_id date rotation_interval code now = Inl (ValueError msg)"
    and "qr_session_files db (class_id, date) = Some existing \<Longrightarrow> q_status existing = ''active''
           \<Longrightarrow> \<exists>msg. start_qr_session db class_id teacher_id date rotation_interval code now = Inl (ValueError msg)"
  using assms by (auto simp: start_qr_session_def Let_def split: option.splits)

text \<open>
  The scan update of a \<open>sessions\<close> list at a session number \<open>n\<close>, in either backend: every
  missing \<open>session_i\<close> below \<open>n\<close> is added with status \<open>A\<close>, some entry \<open>session_n\<close> ends with
  status \<open>P\<close>, and the entries of other sessions are kept.
\<close>

lemma mark_present_keeps:
  "s \<in> set xs \<Longrightarrow> s_id s \<noteq> t \<Longrightarrow> s \<in> set (mark_present t xs)"
  by (induction xs) auto

lemma mark_present_marks:
  "t \<in> s_id ` set xs \<Longrightarrow> \<exists>s \<in> set (mark_present t xs). s_id s = t \<and> s_status s = Some ''P''"
  by (induction xs) auto

lemma scan_backfills_sessions:
  fixes n :: nat and ss :: "session list" and E :: "string set"
  assumes E: "E = set (filter (\<lambda>x. x \<noteq> []) (map s_id ss)) \<or> E = set (map s_id ss)"
  defines "ss' \<equiv> mark_present (session_id n) (fill_missing E n ''P'' ss)"
  shows "\<And>i. 1 \<le> i \<Longrightarrow> i < n \<Longrightarrow> session_id i \<notin> s_id ` set ss \<Longrightarrow> new_session i ''A'' \<in> set ss'"
    and "1 \<le> n \<Longrightarrow> \<exists>s \<in> set ss'. s_id s = session_id n \<and> s_status s = Some ''P''"
    and "\<And>s. s \<in> set ss \<Longrightarrow> s_id s \<noteq> session_id n \<Longrightarrow> s \<in> set ss'"
proof -
  from E have sub: "E \<subseteq> s_id ` set ss" by auto
  { fix i assume i: "1 \<le> i" "i < n" "session_id i \<notin> s_id ` set ss"
    with sub have "session_id i \<notin> E" by auto
    moreover from i have "i \<in> set [1..<Suc n]" by auto
    ultimately have "new_session i (if i = n then ''P'' else ''A'') \<in> set (fill_missing E n ''P'' ss)"
      unfolding fill_missing_def by (rule fill_fold_adds[rotated])
    with i have "new_session i ''A'' \<in> set (fill_missing E n ''P'' ss)" by simp
    moreover from i have "s_id (new_session i ''A'') \<noteq> session_id n" by (simp add: session_id_inj)
    ultimately show "new_session i ''A'' \<in> set ss'"
      unfolding ss'_def by (rule mark_present_keeps) }
  { assume "1 \<le> n"
    from fill_missing_has_ids[OF sub this le_refl]
    show "\<exists>s \<in> set ss'. s_id s = session_id n \<and> s_status s = Some ''P''"
      unfolding ss'_def by (rule mark_present_marks) }
  { fix s assume s: "s \<in> set ss" "s_id s \<noteq> session_id n"
    with fill_missing_keeps[of ss E n "''P''"] have "s \<in> set (fill_missing E n ''P'' ss)" by auto
    with s(2) show "s \<in> set ss'" unfolding ss'_def by (simp add: mark_present_keeps) }
qed

text \<open>
  \<^verbatim>\<open>stop_qr_session\<close> of the file backend: the rejections, and what a successful stop returns
  and writes. The statistics of the class file are the ones it was read with.
\<close>

lemma stop_qr_session_rejects:
  "qr_session_files db (class_id, date) = None
     \<Longrightarrow> stop_qr_session db class_id teacher_id date now = Inl (ValueError ''No active session'')"
  "qr_session_files db (class_id, date) = Some q \<Longrightarrow> q_status q \<noteq> ''active''
     \<Longrightarrow> stop_qr_session db class_id teacher_id date now = Inl (ValueError ''No active session'')"
  "qr_session_files db (class_id, date) = Some q \<Longrightarrow> q_status q = ''active''
     \<Longrightarrow> q_teacher_id q \<noteq> teacher_id
     \<Longrightarrow> stop_qr_session db class_id teacher_id date now = Inl (ValueError ''Unauthorized'')"
  by (simp_all add: stop_qr_session_def)

lemma stop_qr_session_success:
  assumes "stop_qr_session db class_id teacher_id date now = Inr (r, db')"
  shows "\<exists>q class_data.
           qr_session_files db (class_id, date) = Some q \<and> q_status q = ''active''
         \<and> q_teacher_id q = teacher_id
         \<and> classes db class_id = Some class_data \<and> c_teacher_id class_data = Some teacher_id
         \<and> qr_session_files db' (class_id, date)
              = Some (q\<lparr>q_status := ''stopped'', q_stopped_at := Some now\<rparr>)
         \<and> classes db' class_id
              = Some (class_data\<lparr>c_students :=
                   map (\<lambda>s. if st_id s \<in> set (map e_student_record_id
                                      (filter (\<lambda>e. e_status e = ''active'') (read_enrollments db class_id)))
                                \<and> st_id s \<notin> set (q_scanned_students q)
                             then mark_absent now date (q_session_number q) s else s)
                       (c_students class_data)\<rparr>)
         \<and> map_option c_statistics (classes db' class_id) = Some (c_statistics class_data)
         \<and> r_scanned_count r = card (set (q_scanned_students q))
         \<and> r_absent_count r
              = length (filter (\<lambda>s. st_id s \<in> set (map e_student_record_id
                                      (filter (\<lambda>e. e_status e = ''active'') (read_enrollments db class_id)))
                                \<and> st_id s \<notin> set (q_scanned_students q)) (c_students class_data))
         \<and> r_session_number r = q_session_number q"
  using assms
  by (auto simp: stop_qr_session_def read_class_file_def Let_def split: option.splits if_splits)

end
